theory Spec2Isabelle
  imports Complex_Main
begin

section \<open>Cert Quest: the simulation core of \<^verbatim>\<open>game.js\<close>\<close>

text \<open>
  The theory embeds the update loop of the browser game: the scoring function, the
  player kinematics, the knowledge meter with its erosion timer, the falling items, the
  ground mistakes and the patient slot.  Every global object of the script is a record,
  the whole script state is the record \<open>game\<close>, and every function of the script that
  mutates globals is a function from \<open>game\<close> to \<open>game\<close>.

  Numbers.  A JavaScript number is an IEEE 754 binary64 value.  The scoring function is
  exported and may be called with any value, so its arguments are values of the datatype
  \<open>jsval\<close>, whose numbers are reals extended with \<open>Infinity\<close>, \<open>-Infinity\<close> and
  \<open>NaN\<close>; a real stands for a JavaScript number when it is a double (\<open>is_double\<close>).
  The arithmetic of the scoring function rounds as the machine does: the sum and the
  product of two finite numbers are the exact result rounded to the nearest double, ties
  to the even significand, and to an infinity beyond the largest double (\<open>fl\<close>).  The
  simulation state holds finite numbers only and is modelled with \<open>real\<close>, without the
  rounding.  The sign of zero is not modelled.

  Outside world.  The canvas element comes from the page, which gives its size; it is a
  parameter \<open>c\<close> of every function that reads it.  Each call of \<^verbatim>\<open>Math.random()\<close>
  is an input: the record \<open>draws\<close> has one field per call site.  A draw lies in
  \<open>[0, 1)\<close> and the timestamps of successive frames do not decrease; no theorem below
  needs either fact, so draws and timestamps are arbitrary reals.  Drawing and the HUD only
  read the state and are left out.
\<close>

subsection \<open>JavaScript values and the scoring function\<close>

datatype jsnum = Num real | Infinity | NegInfinity | NaN

datatype jsval =
    JUndefined
  | JNull
  | JBoolean bool
  | JNumber jsnum
  | JString string
  | JBigInt int
  | JSymbol string
  | JObject
  | JFunction

fun typeof :: "jsval \<Rightarrow> string" where
  "typeof JUndefined = ''undefined''"
| "typeof JNull = ''object''"
| "typeof (JBoolean b) = ''boolean''"
| "typeof (JNumber n) = ''number''"
| "typeof (JString s) = ''string''"
| "typeof (JBigInt i) = ''bigint''"
| "typeof (JSymbol s) = ''symbol''"
| "typeof JObject = ''object''"
| "typeof JFunction = ''function''"

text \<open>
  Rounding to binary64.  A double other than zero is \<open>n * 2 ^ (e - 52)\<close> with an integer
  \<open>n\<close>, \<open>2 ^ 52 \<le> \<bar>n\<bar> < 2 ^ 53\<close> and \<open>- 1022 \<le> e \<le> 1023\<close> (normal), or with
  \<open>\<bar>n\<bar> < 2 ^ 52\<close> and \<open>e = - 1022\<close> (subnormal).  \<open>binade v\<close> is the exponent \<open>e\<close> of the
  binade of \<open>v\<close>, \<open>2 ^ e \<le> \<bar>v\<bar> < 2 ^ (e + 1)\<close>, kept within \<open>- 1022\<close> and \<open>1024\<close>; it is
  found by a search that stops at these bounds.  \<open>fl v\<close> rounds \<open>v\<close> to the nearest multiple
  of the spacing \<open>2 ^ (e - 52)\<close> of its binade, a tie going to the even multiple, and gives
  an infinity when the rounded value reaches \<open>2 ^ 1024\<close>.
\<close>

function binade_up :: "nat \<Rightarrow> real \<Rightarrow> nat" where
  "binade_up n v = (if 1024 \<le> n \<or> v < 2 ^ Suc n then n else binade_up (Suc n) v)"
  by pat_completeness auto
termination
  by (relation "measure (\<lambda>(n, v). 1024 - n)") auto

function binade_down :: "nat \<Rightarrow> real \<Rightarrow> nat" where
  "binade_down n v = (if 1022 \<le> n \<or> 1 \<le> v * 2 ^ n then n else binade_down (Suc n) v)"
  by pat_completeness auto
termination
  by (relation "measure (\<lambda>(n, v). 1022 - n)") auto

declare binade_up.simps [simp del] binade_down.simps [simp del]

definition binade :: "real \<Rightarrow> int" where
  "binade v = (if 1 \<le> \<bar>v\<bar> then int (binade_up 0 \<bar>v\<bar>) else - int (binade_down 0 \<bar>v\<bar>))"

definition round_even :: "real \<Rightarrow> int" where
  "round_even q =
     (let n = \<lfloor>q\<rfloor>; f = q - of_int n
      in if f < 1 / 2 then n else if 1 / 2 < f then n + 1 else if even n then n else n + 1)"

definition fl :: "real \<Rightarrow> jsnum" where
  "fl v =
     (if v = 0 then Num 0
      else (let ulp = 2 powi (binade v - 52); r = of_int (round_even (v / ulp)) * ulp
            in if 2 ^ 1024 \<le> \<bar>r\<bar> then (if 0 < v then Infinity else NegInfinity) else Num r))"


text \<open>
  The operators \<^verbatim>\<open><\<close>, \<^verbatim>\<open>*\<close> and \<^verbatim>\<open>+\<close> on two numbers.  The comparison is exact;
  the product and the sum of two finite numbers are rounded.
\<close>

fun js_less :: "jsnum \<Rightarrow> jsnum \<Rightarrow> bool" where
  "js_less NaN b = False"
| "js_less a NaN = False"
| "js_less (Num a) (Num b) = (a < b)"
| "js_less a NegInfinity = False"
| "js_less NegInfinity b = True"
| "js_less Infinity b = False"
| "js_less (Num a) Infinity = True"

fun js_sign :: "jsnum \<Rightarrow> int" where
  "js_sign (Num a) = (if a < 0 then -1 else if a = 0 then 0 else 1)"
| "js_sign Infinity = 1"
| "js_sign NegInfinity = -1"
| "js_sign NaN = 0"

fun js_times :: "jsnum \<Rightarrow> jsnum \<Rightarrow> jsnum" where
  "js_times NaN b = NaN"
| "js_times a NaN = NaN"
| "js_times (Num a) (Num b) = fl (a * b)"
| "js_times a b =
     (if js_sign a * js_sign b = 0 then NaN
      else if js_sign a * js_sign b > 0 then Infinity else NegInfinity)"

fun js_plus :: "jsnum \<Rightarrow> jsnum \<Rightarrow> jsnum" where
  "js_plus NaN b = NaN"
| "js_plus a NaN = NaN"
| "js_plus (Num a) (Num b) = fl (a + b)"
| "js_plus Infinity NegInfinity = NaN"
| "js_plus NegInfinity Infinity = NaN"
| "js_plus Infinity b = Infinity"
| "js_plus NegInfinity b = NegInfinity"
| "js_plus (Num a) b = b"

datatype error = Error string

text \<open>
  \<^verbatim>\<open>computeScore\<close> (game.js 135-146, test-shim.js 12-23).  The first guard is the
  \<^verbatim>\<open>typeof\<close> test of both arguments; behind it both are numbers.
\<close>

fun computeScore :: "jsval \<Rightarrow> jsval \<Rightarrow> error + jsnum" where
  "computeScore (JNumber patientsTreated) (JNumber assessmentsPassed) =
     (if js_less patientsTreated (Num 0) \<or> js_less assessmentsPassed (Num 0)
      then Inl (Error ''Score inputs must be non-negative.'')
      else Inr (js_plus (js_times patientsTreated (Num 1)) (js_times assessmentsPassed (Num 2))))"
| "computeScore patientsTreated assessmentsPassed = Inl (Error ''Score inputs must be numeric.'')"

subsection \<open>Constants\<close>

record canvas =
  canvas_width :: nat
  canvas_height :: nat

datatype game_state = START | PLAYING | GAME_OVER

datatype item_type = KNOWLEDGE | MISTAKE | ASSESSMENT

definition FLOOR_Y :: "canvas \<Rightarrow> real" where
  "FLOOR_Y c = real (canvas_height c) - 60"

definition PLAYER_WIDTH :: real where [simp]: "PLAYER_WIDTH = 32"
definition PLAYER_HEIGHT :: real where [simp]: "PLAYER_HEIGHT = 52"
definition PLAYER_SPEED :: real where [simp]: "PLAYER_SPEED = 220"
definition JUMP_VELOCITY :: real where [simp]: "JUMP_VELOCITY = - 420"
definition GRAVITY :: real where [simp]: "GRAVITY = 1100"

definition KNOWLEDGE_PICKUP_AMOUNT :: real where [simp]: "KNOWLEDGE_PICKUP_AMOUNT = 10"
definition KNOWLEDGE_EROSION_STEP :: real where [simp]: "KNOWLEDGE_EROSION_STEP = 5"
definition KNOWLEDGE_EROSION_INTERVAL_MS :: real where [simp]: "KNOWLEDGE_EROSION_INTERVAL_MS = 3000"
definition KNOWLEDGE_MIN :: real where [simp]: "KNOWLEDGE_MIN = 0"
definition KNOWLEDGE_MAX :: real where [simp]: "KNOWLEDGE_MAX = 100"
definition KNOWLEDGE_WARNING_THRESHOLD :: real where [simp]: "KNOWLEDGE_WARNING_THRESHOLD = 30"

definition MAX_MISTAKES :: real where [simp]: "MAX_MISTAKES = 5"

definition PATIENT_VISIBLE_MS :: real where [simp]: "PATIENT_VISIBLE_MS = 8000"
definition PATIENT_GAP_MS :: real where [simp]: "PATIENT_GAP_MS = 2000"
definition PATIENT_TREAT_DURATION_MS :: real where [simp]: "PATIENT_TREAT_DURATION_MS = 2000"

definition ITEM_SPAWN_INTERVAL_MIN_MS :: real where [simp]: "ITEM_SPAWN_INTERVAL_MIN_MS = 900"
definition ITEM_SPAWN_INTERVAL_MAX_MS :: real where [simp]: "ITEM_SPAWN_INTERVAL_MAX_MS = 1800"

definition GROUND_MISTAKE_DURATION_MS :: real where [simp]: "GROUND_MISTAKE_DURATION_MS = 2000"
definition GROUND_MISTAKE_SPAWN_INTERVAL_MIN_MS :: real where
  [simp]: "GROUND_MISTAKE_SPAWN_INTERVAL_MIN_MS = 2400"
definition GROUND_MISTAKE_SPAWN_INTERVAL_MAX_MS :: real where
  [simp]: "GROUND_MISTAKE_SPAWN_INTERVAL_MAX_MS = 5600"

subsection \<open>State\<close>

record point =
  x :: real
  y :: real

record box = point +
  width :: real
  height :: real

text \<open>A falling item; \<open>item_vy\<close> is its field \<^verbatim>\<open>vy\<close>.\<close>

record item = box +
  type :: item_type
  item_vy :: real

text \<open>A patient or a ground mistake: a box with a lifetime.\<close>

record timed_box = box +
  lifetimeMs :: real

record input_state =
  left :: bool
  right :: bool
  jump :: bool

record player_state = point +
  vx :: real
  vy :: real
  onGround :: bool
  facing :: real

record knowledge_state =
  percent :: real
  timeSinceErosionMs :: real

record mistakes_state =
  count :: real

record score_state =
  patientsTreated :: real
  assessmentsPassed :: real

record spawn_state =
  timeSinceLastSpawnMs :: real
  nextSpawnDelayMs :: real

record assessment_state =
  pending :: bool

record patient_state =
  active :: "timed_box option"
  timeSinceLastPatientGoneMs :: real
  contactDurationMs :: real

text \<open>
  The globals of the script.  \<open>finalScore\<close> is the number \<^verbatim>\<open>endGame\<close> writes into
  the game-over screen.  \<open>endGameCalls\<close> is a history variable, not a variable of the
  script: it counts the calls of \<^verbatim>\<open>endGame\<close> since the last \<^verbatim>\<open>startGame\<close>, and no
  other field depends on it.
\<close>

record game =
  gameState :: game_state
  inputState :: input_state
  player :: player_state
  knowledgeState :: knowledge_state
  mistakesState :: mistakes_state
  scoreState :: score_state
  fallingItems :: "item list"
  itemSpawnState :: spawn_state
  assessmentState :: assessment_state
  patientState :: patient_state
  groundMistakes :: "timed_box list"
  groundMistakeSpawnState :: spawn_state
  lastTimestamp :: "real option"
  finalScore :: "jsnum option"
  endGameCalls :: nat

text \<open>The values of \<^verbatim>\<open>Math.random()\<close>, one field per call site of the simulation.\<close>

record draws =
  assessment_x_draw :: real
  item_roll_draw :: real
  item_x_draw :: real
  item_delay_draw :: real
  patient_x_draw :: real
  ground_x_draw :: real
  ground_delay_draw :: real

subsection \<open>Helpers\<close>

definition clamp :: "real \<Rightarrow> real \<Rightarrow> real \<Rightarrow> real" where
  "clamp value mn mx = min mx (max mn value)"

text \<open>\<^verbatim>\<open>Math.round\<close>: the nearest integer, a tie going up.\<close>

definition math_round :: "real \<Rightarrow> real" where
  "math_round v = of_int \<lfloor>v + 1 / 2\<rfloor>"

text \<open>\<^verbatim>\<open>randomBetween\<close>; the first argument is the value of \<^verbatim>\<open>Math.random()\<close>.\<close>

definition randomBetween :: "real \<Rightarrow> real \<Rightarrow> real \<Rightarrow> real" where
  "randomBetween rnd mn mx = of_int \<lfloor>rnd * (mx - mn + 1)\<rfloor> + mn"

definition intersects :: "'a box_scheme \<Rightarrow> 'b box_scheme \<Rightarrow> bool" where
  "intersects a b =
     (\<not> (x a + width a < x b \<or> x a > x b + width b \<or>
         y a + height a < y b \<or> y a > y b + height b))"

definition getPlayerHitBox :: "game \<Rightarrow> box" where
  "getPlayerHitBox g =
     (let paddingX = 4; paddingTop = 6; paddingBottom = 6 in
      \<lparr>x = x (player g) + paddingX, y = y (player g) + paddingTop,
       width = PLAYER_WIDTH - paddingX * 2,
       height = PLAYER_HEIGHT - paddingTop - paddingBottom\<rparr>)"

text \<open>\<^verbatim>\<open>array.splice(i, 1)\<close>: the array without its element at index \<open>i\<close>.\<close>

definition splice_at :: "nat \<Rightarrow> 'a list \<Rightarrow> 'a list" where
  "splice_at i xs = take i xs @ drop (Suc i) xs"

text \<open>How one pass through a loop body ends: falling through or \<^verbatim>\<open>continue\<close>, or \<^verbatim>\<open>return\<close>.\<close>

datatype ('a, 'b) flow = Continue 'a | Return 'b

subsection \<open>Start and end of a session\<close>

text \<open>
  The state when the script has been loaded (game.js 67-127).  The two spawn delays are
  drawn with \<^verbatim>\<open>randomBetween\<close>.
\<close>

definition initial :: "canvas \<Rightarrow> draws \<Rightarrow> game" where
  "initial c r =
     \<lparr>gameState = START,
      inputState = \<lparr>left = False, right = False, jump = False\<rparr>,
      player = \<lparr>x = real (canvas_width c) / 2 - PLAYER_WIDTH / 2, y = FLOOR_Y c - PLAYER_HEIGHT,
                vx = 0, vy = 0, onGround = True, facing = 1\<rparr>,
      knowledgeState = \<lparr>percent = 50, timeSinceErosionMs = 0\<rparr>,
      mistakesState = \<lparr>count = 0\<rparr>,
      scoreState = \<lparr>patientsTreated = 0, assessmentsPassed = 0\<rparr>,
      fallingItems = [],
      itemSpawnState = \<lparr>timeSinceLastSpawnMs = 0,
        nextSpawnDelayMs = randomBetween (item_delay_draw r)
          ITEM_SPAWN_INTERVAL_MIN_MS ITEM_SPAWN_INTERVAL_MAX_MS\<rparr>,
      assessmentState = \<lparr>pending = False\<rparr>,
      patientState = \<lparr>active = None, timeSinceLastPatientGoneMs = PATIENT_GAP_MS,
        contactDurationMs = 0\<rparr>,
      groundMistakes = [],
      groundMistakeSpawnState = \<lparr>timeSinceLastSpawnMs = 0,
        nextSpawnDelayMs = randomBetween (ground_delay_draw r)
          GROUND_MISTAKE_SPAWN_INTERVAL_MIN_MS GROUND_MISTAKE_SPAWN_INTERVAL_MAX_MS\<rparr>,
      lastTimestamp = None,
      finalScore = None,
      endGameCalls = 0\<rparr>"

text \<open>\<^verbatim>\<open>startGame\<close> (game.js 172-213).  It leaves \<^verbatim>\<open>inputState\<close> as it is.\<close>

definition startGame :: "canvas \<Rightarrow> draws \<Rightarrow> game \<Rightarrow> game" where
  "startGame c r g =
     g\<lparr>gameState := PLAYING,
       player := \<lparr>x = real (canvas_width c) / 2 - PLAYER_WIDTH / 2, y = FLOOR_Y c - PLAYER_HEIGHT,
                  vx = 0, vy = 0, onGround = True, facing = 1\<rparr>,
       knowledgeState := \<lparr>percent = 50, timeSinceErosionMs = 0\<rparr>,
       mistakesState := \<lparr>count = 0\<rparr>,
       scoreState := \<lparr>patientsTreated = 0, assessmentsPassed = 0\<rparr>,
       fallingItems := [],
       itemSpawnState := \<lparr>timeSinceLastSpawnMs = 0,
         nextSpawnDelayMs = randomBetween (item_delay_draw r)
           ITEM_SPAWN_INTERVAL_MIN_MS ITEM_SPAWN_INTERVAL_MAX_MS\<rparr>,
       assessmentState := \<lparr>pending = False\<rparr>,
       patientState := \<lparr>active = None, timeSinceLastPatientGoneMs = PATIENT_GAP_MS,
         contactDurationMs = 0\<rparr>,
       groundMistakes := [],
       groundMistakeSpawnState := \<lparr>timeSinceLastSpawnMs = 0,
         nextSpawnDelayMs = randomBetween (ground_delay_draw r)
           GROUND_MISTAKE_SPAWN_INTERVAL_MIN_MS GROUND_MISTAKE_SPAWN_INTERVAL_MAX_MS\<rparr>,
       lastTimestamp := None,
       endGameCalls := 0\<rparr>"

text \<open>
  \<^verbatim>\<open>endGame\<close> (game.js 218-227).  The state changes before \<^verbatim>\<open>computeScore\<close> is
  called; an exception of \<^verbatim>\<open>computeScore\<close> leaves \<^verbatim>\<open>endGame\<close> and all its
  callers, which is the result \<open>Inl\<close>.
\<close>

definition endGame :: "game \<Rightarrow> error + game" where
  "endGame g =
     (let g1 = g\<lparr>gameState := GAME_OVER, endGameCalls := Suc (endGameCalls g)\<rparr> in
      case computeScore (JNumber (Num (patientsTreated (scoreState g1))))
                        (JNumber (Num (assessmentsPassed (scoreState g1)))) of
        Inl e \<Rightarrow> Inl e
      | Inr totalScore \<Rightarrow> Inr (g1\<lparr>finalScore := Some totalScore\<rparr>))"

subsection \<open>Keyboard\<close>

record keyboard_event =
  key :: string
  code :: string

definition handleKeyDown :: "keyboard_event \<Rightarrow> input_state \<Rightarrow> input_state" where
  "handleKeyDown event inp =
     (if key event = ''ArrowLeft'' then inp\<lparr>left := True\<rparr>
      else if key event = ''ArrowRight'' then inp\<lparr>right := True\<rparr>
      else if code event = ''Space'' then inp\<lparr>jump := True\<rparr>
      else inp)"

definition handleKeyUp :: "keyboard_event \<Rightarrow> input_state \<Rightarrow> input_state" where
  "handleKeyUp event inp =
     (if key event = ''ArrowLeft'' then inp\<lparr>left := False\<rparr>
      else if key event = ''ArrowRight'' then inp\<lparr>right := False\<rparr>
      else if code event = ''Space'' then inp\<lparr>jump := False\<rparr>
      else inp)"

subsection \<open>Spawning\<close>

text \<open>\<^verbatim>\<open>spawnRandomItem\<close> (game.js 292-319).\<close>

definition spawnRandomItem :: "canvas \<Rightarrow> draws \<Rightarrow> game \<Rightarrow> game" where
  "spawnRandomItem c r g =
     (let roll = item_roll_draw r;
          ty = (if roll > 0.825 then MISTAKE else KNOWLEDGE);
          w = 22; h = 26;
          x0 = randomBetween (item_x_draw r) 20 (real (canvas_width c) - 20 - w);
          y0 = - h;
          v = (if ty = KNOWLEDGE then 180 else 260)
      in g\<lparr>fallingItems := fallingItems g @
            [\<lparr>x = x0, y = y0, width = w, height = h, type = ty, item_vy = v\<rparr>]\<rparr>)"

text \<open>\<^verbatim>\<open>spawnAssessmentItem\<close> (game.js 324-338).\<close>

definition spawnAssessmentItem :: "canvas \<Rightarrow> draws \<Rightarrow> game \<Rightarrow> game" where
  "spawnAssessmentItem c r g =
     (let w = 26; h = 30;
          x0 = randomBetween (assessment_x_draw r) 20 (real (canvas_width c) - 20 - w);
          y0 = - h
      in g\<lparr>fallingItems := fallingItems g @
            [\<lparr>x = x0, y = y0, width = w, height = h, type = ASSESSMENT, item_vy = 133\<rparr>]\<rparr>)"

text \<open>\<^verbatim>\<open>spawnGroundMistake\<close> (game.js 560-572).\<close>

definition spawnGroundMistake :: "canvas \<Rightarrow> draws \<Rightarrow> game \<Rightarrow> game" where
  "spawnGroundMistake c r g =
     (let w = 22; h = 26;
          x0 = randomBetween (ground_x_draw r) 20 (real (canvas_width c) - 20 - w);
          y0 = FLOOR_Y c - h
      in g\<lparr>groundMistakes := groundMistakes g @
            [\<lparr>x = x0, y = y0, width = w, height = h, lifetimeMs = 0\<rparr>]\<rparr>)"

subsection \<open>The player\<close>

text \<open>\<^verbatim>\<open>updatePlayer\<close> (game.js 344-372), statement by statement.\<close>

definition updatePlayer :: "canvas \<Rightarrow> real \<Rightarrow> game \<Rightarrow> game" where
  "updatePlayer c dtSeconds g =
     (let inp = inputState g;
          p1 = (player g)\<lparr>vx := 0\<rparr>;
          p2 = (if left inp then p1\<lparr>vx := vx p1 - PLAYER_SPEED, facing := - 1\<rparr> else p1);
          p3 = (if right inp then p2\<lparr>vx := vx p2 + PLAYER_SPEED, facing := 1\<rparr> else p2);
          p4 = (if jump inp \<and> onGround p3 then p3\<lparr>vy := JUMP_VELOCITY, onGround := False\<rparr>
                else p3);
          p5 = p4\<lparr>vy := vy p4 + GRAVITY * dtSeconds\<rparr>;
          p6 = p5\<lparr>x := x p5 + vx p5 * dtSeconds\<rparr>;
          p7 = p6\<lparr>y := y p6 + vy p6 * dtSeconds\<rparr>;
          p8 = (if y p7 + PLAYER_HEIGHT \<ge> FLOOR_Y c
                then p7\<lparr>y := FLOOR_Y c - PLAYER_HEIGHT, vy := 0, onGround := True\<rparr>
                else p7);
          p9 = p8\<lparr>x := clamp (x p8) 0 (real (canvas_width c) - PLAYER_WIDTH)\<rparr>
      in g\<lparr>player := p9\<rparr>)"

subsection \<open>Knowledge erosion and item spawning\<close>

text \<open>\<^verbatim>\<open>updateKnowledgeAndItems\<close> (game.js 410-441).\<close>

definition updateKnowledgeAndItems :: "canvas \<Rightarrow> draws \<Rightarrow> real \<Rightarrow> game \<Rightarrow> game" where
  "updateKnowledgeAndItems c r dtMs g =
     (let k1 = (knowledgeState g)\<lparr>timeSinceErosionMs :=
                  timeSinceErosionMs (knowledgeState g) + dtMs\<rparr>;
          k2 = (if timeSinceErosionMs k1 \<ge> KNOWLEDGE_EROSION_INTERVAL_MS
                then (if percent k1 > KNOWLEDGE_MIN
                      then k1\<lparr>percent := clamp (percent k1 - KNOWLEDGE_EROSION_STEP)
                                            KNOWLEDGE_MIN KNOWLEDGE_MAX\<rparr>
                      else k1)\<lparr>timeSinceErosionMs := 0\<rparr>
                else k1);
          g1 = g\<lparr>knowledgeState := k2\<rparr>;
          g2 = (if \<not> pending (assessmentState g1) \<and>
                   math_round (percent (knowledgeState g1)) \<ge> KNOWLEDGE_MAX
                then spawnAssessmentItem c r (g1\<lparr>assessmentState := \<lparr>pending = True\<rparr>\<rparr>)
                else g1);
          s1 = (itemSpawnState g2)\<lparr>timeSinceLastSpawnMs :=
                  timeSinceLastSpawnMs (itemSpawnState g2) + dtMs\<rparr>;
          g3 = g2\<lparr>itemSpawnState := s1\<rparr>
      in if timeSinceLastSpawnMs s1 \<ge> nextSpawnDelayMs s1
         then (spawnRandomItem c r g3)\<lparr>itemSpawnState :=
                 \<lparr>timeSinceLastSpawnMs = 0,
                  nextSpawnDelayMs = randomBetween (item_delay_draw r)
                    ITEM_SPAWN_INTERVAL_MIN_MS ITEM_SPAWN_INTERVAL_MAX_MS\<rparr>\<rparr>
         else g3)"

subsection \<open>Falling items\<close>

text \<open>
  The body of the loop of \<^verbatim>\<open>updateFallingItems\<close> (game.js 450-489) at index \<open>i\<close>.
  The \<^verbatim>\<open>return\<close> after \<^verbatim>\<open>endGame()\<close> comes before the \<^verbatim>\<open>splice\<close>, so the item
  that ends the game stays in the array.  The loop calls the body only with \<open>i\<close> below
  the length of the array (lemma \<open>updateFallingItems_body_length\<close>), so the array is
  never read out of range.
\<close>

definition updateFallingItems_body ::
    "canvas \<Rightarrow> real \<Rightarrow> box \<Rightarrow> nat \<Rightarrow> game \<Rightarrow> (game, error + game) flow" where
  "updateFallingItems_body c dtSeconds playerBox i g =
     (let item0 = fallingItems g ! i;
          item = item0\<lparr>y := y item0 + item_vy item0 * dtSeconds\<rparr>;
          g1 = g\<lparr>fallingItems := (fallingItems g)[i := item]\<rparr>
      in if intersects playerBox item then
           (case type item of
              KNOWLEDGE \<Rightarrow>
                (let g2 = g1\<lparr>knowledgeState := (knowledgeState g1)\<lparr>percent :=
                       clamp (percent (knowledgeState g1) + KNOWLEDGE_PICKUP_AMOUNT)
                             KNOWLEDGE_MIN KNOWLEDGE_MAX\<rparr>\<rparr>
                 in Continue (g2\<lparr>fallingItems := splice_at i (fallingItems g2)\<rparr>))
            | MISTAKE \<Rightarrow>
                (let g2 = g1\<lparr>mistakesState := (mistakesState g1)\<lparr>count :=
                       clamp (count (mistakesState g1) + 1) 0 MAX_MISTAKES\<rparr>\<rparr>
                 in if count (mistakesState g2) \<ge> MAX_MISTAKES
                    then Return (endGame g2)
                    else Continue (g2\<lparr>fallingItems := splice_at i (fallingItems g2)\<rparr>))
            | ASSESSMENT \<Rightarrow>
                (let g2 = g1\<lparr>mistakesState := (mistakesState g1)\<lparr>count := 0\<rparr>,
                            knowledgeState := (knowledgeState g1)\<lparr>percent := 50\<rparr>,
                            assessmentState := (assessmentState g1)\<lparr>pending := False\<rparr>,
                            scoreState := (scoreState g1)\<lparr>assessmentsPassed :=
                              assessmentsPassed (scoreState g1) + 1\<rparr>\<rparr>
                 in Continue (g2\<lparr>fallingItems := splice_at i (fallingItems g2)\<rparr>)))
         else if y item > real (canvas_height c) + 40 then
           (let g2 = (if type item = ASSESSMENT
                      then g1\<lparr>assessmentState := (assessmentState g1)\<lparr>pending := False\<rparr>\<rparr>
                      else g1)
            in Continue (g2\<lparr>fallingItems := splice_at i (fallingItems g2)\<rparr>))
         else Continue g1)"

text \<open>
  The loop runs \<open>i\<close> from \<open>length - 1\<close> down to \<open>0\<close>; the first argument here is
  \<open>i + 1\<close>, the number of indices still to visit.
\<close>

fun updateFallingItems_loop ::
    "canvas \<Rightarrow> real \<Rightarrow> box \<Rightarrow> nat \<Rightarrow> game \<Rightarrow> error + game" where
  "updateFallingItems_loop c dtSeconds playerBox 0 g = Inr g"
| "updateFallingItems_loop c dtSeconds playerBox (Suc i) g =
     (case updateFallingItems_body c dtSeconds playerBox i g of
        Return res \<Rightarrow> res
      | Continue g' \<Rightarrow> updateFallingItems_loop c dtSeconds playerBox i g')"

definition updateFallingItems :: "canvas \<Rightarrow> real \<Rightarrow> game \<Rightarrow> error + game" where
  "updateFallingItems c dtSeconds g =
     updateFallingItems_loop c dtSeconds (getPlayerHitBox g) (length (fallingItems g)) g"

subsection \<open>The patient\<close>

text \<open>The expiry check that ends \<^verbatim>\<open>updatePatient\<close> (game.js 550-554).\<close>

definition patientExpiry :: "timed_box \<Rightarrow> game \<Rightarrow> game" where
  "patientExpiry patient g =
     (if lifetimeMs patient \<ge> PATIENT_VISIBLE_MS
      then g\<lparr>patientState := (patientState g)\<lparr>active := None,
                timeSinceLastPatientGoneMs := 0, contactDurationMs := 0\<rparr>\<rparr>
      else g)"

text \<open>\<^verbatim>\<open>updatePatient\<close> (game.js 497-555).\<close>

definition updatePatient :: "canvas \<Rightarrow> draws \<Rightarrow> real \<Rightarrow> game \<Rightarrow> game" where
  "updatePatient c r dtMs g =
     (case active (patientState g) of
        None \<Rightarrow>
          (let ps1 = (patientState g)\<lparr>timeSinceLastPatientGoneMs :=
                        timeSinceLastPatientGoneMs (patientState g) + dtMs\<rparr>
           in if timeSinceLastPatientGoneMs ps1 \<ge> PATIENT_GAP_MS then
                (let w = 28; h = 32;
                     x0 = randomBetween (patient_x_draw r) 20 (real (canvas_width c) - 20 - w);
                     y0 = FLOOR_Y c - h
                 in g\<lparr>patientState := ps1\<lparr>
                        active := Some \<lparr>x = x0, y = y0, width = w, height = h, lifetimeMs = 0\<rparr>,
                        contactDurationMs := 0,
                        timeSinceLastPatientGoneMs := 0\<rparr>\<rparr>)
              else g\<lparr>patientState := ps1\<rparr>)
      | Some patient0 \<Rightarrow>
          (let patient = patient0\<lparr>lifetimeMs := lifetimeMs patient0 + dtMs\<rparr>;
               g1 = g\<lparr>patientState := (patientState g)\<lparr>active := Some patient\<rparr>\<rparr>;
               playerBox = \<lparr>x = x (player g1), y = y (player g1),
                            width = PLAYER_WIDTH, height = PLAYER_HEIGHT\<rparr>;
               patientBox = \<lparr>x = x patient, y = y patient,
                             width = width patient, height = height patient\<rparr>;
               canTreat = (math_round (percent (knowledgeState g1)) \<ge> KNOWLEDGE_WARNING_THRESHOLD)
           in if canTreat \<and> intersects playerBox patientBox then
                (let g2 = g1\<lparr>patientState := (patientState g1)\<lparr>contactDurationMs :=
                            contactDurationMs (patientState g1) + dtMs\<rparr>\<rparr>
                 in if contactDurationMs (patientState g2) \<ge> PATIENT_TREAT_DURATION_MS then
                      g2\<lparr>scoreState := (scoreState g2)\<lparr>patientsTreated :=
                             patientsTreated (scoreState g2) + 1\<rparr>,
                         patientState := (patientState g2)\<lparr>active := None,
                             timeSinceLastPatientGoneMs := 0, contactDurationMs := 0\<rparr>\<rparr>
                    else patientExpiry patient g2)
              else patientExpiry patient
                     (g1\<lparr>patientState := (patientState g1)\<lparr>contactDurationMs := 0\<rparr>\<rparr>)))"

subsection \<open>Ground mistakes\<close>

text \<open>The body of the loop of \<^verbatim>\<open>updateGroundMistakes\<close> (game.js 595-615) at index \<open>i\<close>.\<close>

definition updateGroundMistakes_body ::
    "real \<Rightarrow> box \<Rightarrow> nat \<Rightarrow> game \<Rightarrow> (game, error + game) flow" where
  "updateGroundMistakes_body dtMs playerBox i g =
     (let ob0 = groundMistakes g ! i;
          ob = ob0\<lparr>lifetimeMs := lifetimeMs ob0 + dtMs\<rparr>;
          g1 = g\<lparr>groundMistakes := (groundMistakes g)[i := ob]\<rparr>
      in if intersects playerBox ob then
           (let g2 = g1\<lparr>mistakesState := (mistakesState g1)\<lparr>count :=
                         clamp (count (mistakesState g1) + 1) 0 MAX_MISTAKES\<rparr>\<rparr>;
                g3 = g2\<lparr>groundMistakes := splice_at i (groundMistakes g2)\<rparr>
            in if count (mistakesState g3) \<ge> MAX_MISTAKES
               then Return (endGame g3)
               else Continue g3)
         else if lifetimeMs ob \<ge> GROUND_MISTAKE_DURATION_MS then
           Continue (g1\<lparr>groundMistakes := splice_at i (groundMistakes g1)\<rparr>)
         else Continue g1)"

fun updateGroundMistakes_loop :: "real \<Rightarrow> box \<Rightarrow> nat \<Rightarrow> game \<Rightarrow> error + game" where
  "updateGroundMistakes_loop dtMs playerBox 0 g = Inr g"
| "updateGroundMistakes_loop dtMs playerBox (Suc i) g =
     (case updateGroundMistakes_body dtMs playerBox i g of
        Return res \<Rightarrow> res
      | Continue g' \<Rightarrow> updateGroundMistakes_loop dtMs playerBox i g')"

text \<open>\<^verbatim>\<open>updateGroundMistakes\<close> (game.js 578-617).\<close>

definition updateGroundMistakes :: "canvas \<Rightarrow> draws \<Rightarrow> real \<Rightarrow> game \<Rightarrow> error + game" where
  "updateGroundMistakes c r dtMs g =
     (let s1 = (groundMistakeSpawnState g)\<lparr>timeSinceLastSpawnMs :=
                  timeSinceLastSpawnMs (groundMistakeSpawnState g) + dtMs\<rparr>;
          g1 = g\<lparr>groundMistakeSpawnState := s1\<rparr>;
          g2 = (if timeSinceLastSpawnMs s1 \<ge> nextSpawnDelayMs s1
                then (spawnGroundMistake c r g1)\<lparr>groundMistakeSpawnState :=
                        \<lparr>timeSinceLastSpawnMs = 0,
                         nextSpawnDelayMs = randomBetween (ground_delay_draw r)
                           GROUND_MISTAKE_SPAWN_INTERVAL_MIN_MS
                           GROUND_MISTAKE_SPAWN_INTERVAL_MAX_MS\<rparr>\<rparr>
                else g1)
      in updateGroundMistakes_loop dtMs (getPlayerHitBox g2) (length (groundMistakes g2)) g2)"

subsection \<open>The frame callback and the events of the page\<close>

text \<open>
  \<^verbatim>\<open>gameLoop\<close> (game.js 892-928) without the drawing.  The callback is requested again
  on every path, so the next \<open>Frame\<close> event always reaches it.
\<close>

definition gameLoop :: "canvas \<Rightarrow> real \<Rightarrow> draws \<Rightarrow> game \<Rightarrow> error + game" where
  "gameLoop c timestamp r g =
     (if gameState g \<noteq> PLAYING then Inr g
      else
        (let last = (case lastTimestamp g of None \<Rightarrow> timestamp | Some t \<Rightarrow> t);
             dtMs = timestamp - last;
             dtSeconds = dtMs / 1000;
             g1 = g\<lparr>lastTimestamp := Some timestamp\<rparr>;
             g2 = updatePlayer c dtSeconds g1;
             g3 = updateKnowledgeAndItems c r dtMs g2
         in case updateFallingItems c dtSeconds g3 of
              Inl e \<Rightarrow> Inl e
            | Inr g4 \<Rightarrow>
                if gameState g4 = GAME_OVER then Inr g4
                else updateGroundMistakes c r dtMs (updatePatient c r dtMs g4)))"

datatype event =
    Frame real draws
  | KeyDown keyboard_event
  | KeyUp keyboard_event
  | StartClick draws
  | RestartClick draws

text \<open>The listeners of game.js 930-943 and the frame callback.\<close>

fun handle :: "canvas \<Rightarrow> event \<Rightarrow> game \<Rightarrow> error + game" where
  "handle c (Frame timestamp r) g = gameLoop c timestamp r g"
| "handle c (KeyDown e) g = Inr (g\<lparr>inputState := handleKeyDown e (inputState g)\<rparr>)"
| "handle c (KeyUp e) g = Inr (g\<lparr>inputState := handleKeyUp e (inputState g)\<rparr>)"
| "handle c (StartClick r) g =
     Inr (if gameState g = START \<or> gameState g = GAME_OVER then startGame c r g else g)"
| "handle c (RestartClick r) g =
     Inr (if gameState g = GAME_OVER then startGame c r g else g)"

text \<open>The states the page can be in: the loaded script, then any sequence of events.\<close>

inductive reachable :: "canvas \<Rightarrow> game \<Rightarrow> bool" for c :: canvas where
  reachable_initial: "reachable c (initial c r)"
| reachable_handle: "reachable c g \<Longrightarrow> handle c ev g = Inr g' \<Longrightarrow> reachable c g'"

text \<open>The state after a list of events, for running the model.\<close>

fun run :: "canvas \<Rightarrow> event list \<Rightarrow> game \<Rightarrow> error + game" where
  "run c [] g = Inr g"
| "run c (ev # evs) g = (case handle c ev g of Inl e \<Rightarrow> Inl e | Inr g' \<Rightarrow> run c evs g')"


subsection \<open>Predicates of the statements\<close>

text \<open>A value that is a number below zero.\<close>

definition is_negative :: "jsval \<Rightarrow> bool" where
  "is_negative v = (case v of JNumber n \<Rightarrow> js_less n (Num 0) | _ \<Rightarrow> False)"

text \<open>A meter value that is one of \<open>0, 5, 10, \<dots>, 100\<close>.\<close>

definition percent_ok :: "real \<Rightarrow> bool" where
  "percent_ok p \<longleftrightarrow> (\<exists>k\<in>{0..20::nat}. p = 5 * real k)"

text \<open>The number of assessment items among the falling items.\<close>

definition assessments_in :: "item list \<Rightarrow> nat" where
  "assessments_in xs = length (filter (\<lambda>it. type it = ASSESSMENT) xs)"

text \<open>
  The invariant of the simulation: the meter is a multiple of five in range, the scores
  are not negative, the mistake counter is below its maximum exactly while the game is not
  over, \<^verbatim>\<open>endGame\<close> has run once when the game is over and not at all otherwise, and
  the pending flag says whether an assessment item is falling.
\<close>

definition game_inv :: "game \<Rightarrow> bool" where
  "game_inv g \<longleftrightarrow>
     percent_ok (percent (knowledgeState g)) \<and>
     0 \<le> patientsTreated (scoreState g) \<and> 0 \<le> assessmentsPassed (scoreState g) \<and>
     0 \<le> count (mistakesState g) \<and>
     (if gameState g = GAME_OVER then count (mistakesState g) = 5 \<and> endGameCalls g = 1
      else count (mistakesState g) < 5 \<and> endGameCalls g = 0) \<and>
     assessments_in (fallingItems g) = (if pending (assessmentState g) then 1 else 0)"

text \<open>
  The two conditions of \<^verbatim>\<open>updatePatient\<close>: the rounded meter has reached the warning
  threshold, and the full box of the player overlaps the box of the patient.
\<close>

definition canTreat :: "game \<Rightarrow> bool" where
  "canTreat g \<longleftrightarrow> math_round (percent (knowledgeState g)) \<ge> KNOWLEDGE_WARNING_THRESHOLD"


text \<open>The item at index \<open>i\<close> after the loop body has moved it.\<close>

definition moved :: "real \<Rightarrow> item \<Rightarrow> item" where
  "moved dtSeconds it = it\<lparr>y := y it + item_vy it * dtSeconds\<rparr>"


subsection \<open>Concrete inputs\<close>

text \<open>
  A stage of 800 by 450 pixels, random draws that are all zero, and the state after a click
  on the start button.  They are the inputs at which the theorems below are instantiated.
\<close>

definition stage :: canvas where
  "stage = \<lparr>canvas_width = 800, canvas_height = 450\<rparr>"

definition zero_draws :: draws where
  "zero_draws = \<lparr>assessment_x_draw = 0, item_roll_draw = 0, item_x_draw = 0, item_delay_draw = 0,
     patient_x_draw = 0, ground_x_draw = 0, ground_delay_draw = 0\<rparr>"

definition started :: game where
  "started = startGame stage zero_draws (initial stage zero_draws)"








text \<open>
  A falling item that touches the player, one that has left the stage, a ground mistake
  under the player, and a state with four mistakes.
\<close>

definition touching_item :: "item_type \<Rightarrow> item" where
  "touching_item ty = \<lparr>x = 390, y = 350, width = 26, height = 30, type = ty, item_vy = 133\<rparr>"

definition lost_item :: item where
  "lost_item = \<lparr>x = 20, y = 490, width = 26, height = 30, type = ASSESSMENT, item_vy = 133\<rparr>"

definition ground_under_player :: timed_box where
  "ground_under_player = \<lparr>x = 389, y = 364, width = 22, height = 26, lifetimeMs = 0\<rparr>"

definition four_mistakes :: game where
  "four_mistakes = started\<lparr>mistakesState := \<lparr>count = 4\<rparr>\<rparr>"

definition hit_by_falling :: game where
  "hit_by_falling = four_mistakes\<lparr>fallingItems := [touching_item MISTAKE]\<rparr>"

definition hit_by_ground :: game where
  "hit_by_ground = four_mistakes\<lparr>groundMistakes := [ground_under_player]\<rparr>"

text \<open>A full meter with the assessment item about to be caught, and about to be lost.\<close>

definition catching :: game where
  "catching = four_mistakes\<lparr>knowledgeState := \<lparr>percent = 100, timeSinceErosionMs = 0\<rparr>,
     assessmentState := \<lparr>pending = True\<rparr>, fallingItems := [touching_item ASSESSMENT]\<rparr>"

definition losing :: game where
  "losing = catching\<lparr>fallingItems := [lost_item]\<rparr>"

text \<open>The two states in which the fifth mistake has ended the game.\<close>

definition ended_by_falling :: game where
  "ended_by_falling = hit_by_falling\<lparr>gameState := GAME_OVER, mistakesState := \<lparr>count = 5\<rparr>,
     finalScore := Some (Num 0), endGameCalls := 1\<rparr>"

definition ended_by_ground :: game where
  "ended_by_ground = four_mistakes\<lparr>gameState := GAME_OVER, mistakesState := \<lparr>count = 5\<rparr>,
     finalScore := Some (Num 0), endGameCalls := 1\<rparr>"


text \<open>
  A session on that stage: after the click on the start button, six frames 2400 ms apart,
  with a ground mistake appearing under the player in every frame from the second on.
  \<open>session k\<close> is the state after frame \<open>k\<close>.
\<close>

definition session_draws :: draws where
  "session_draws = zero_draws\<lparr>ground_x_draw := 1 / 2\<rparr>"

definition session_1 :: game where
  "session_1 =
     \<lparr>gameState = PLAYING,
      inputState = \<lparr>left = False, right = False, jump = False\<rparr>,
      player = \<lparr>x = 384, y = 338, vx = 0, vy = 0, onGround = True, facing = 1\<rparr>,
      knowledgeState = \<lparr>percent = 50, timeSinceErosionMs = 0\<rparr>,
      mistakesState = \<lparr>count = 0\<rparr>,
      scoreState = \<lparr>patientsTreated = 0, assessmentsPassed = 0\<rparr>,
      fallingItems = [],
      itemSpawnState = \<lparr>timeSinceLastSpawnMs = 0, nextSpawnDelayMs = 900\<rparr>,
      assessmentState = \<lparr>pending = False\<rparr>,
      patientState =
        \<lparr>active = Some \<lparr>x = 20, y = 358, width = 28, height = 32, lifetimeMs = 0\<rparr>,
         timeSinceLastPatientGoneMs = 0, contactDurationMs = 0\<rparr>,
      groundMistakes = [],
      groundMistakeSpawnState = \<lparr>timeSinceLastSpawnMs = 0, nextSpawnDelayMs = 2400\<rparr>,
      lastTimestamp = Some 0, finalScore = None, endGameCalls = 0\<rparr>"

definition session_2 :: game where
  "session_2 =
     \<lparr>gameState = PLAYING,
      inputState = \<lparr>left = False, right = False, jump = False\<rparr>,
      player = \<lparr>x = 384, y = 338, vx = 0, vy = 0, onGround = True, facing = 1\<rparr>,
      knowledgeState = \<lparr>percent = 50, timeSinceErosionMs = 2400\<rparr>,
      mistakesState = \<lparr>count = 1\<rparr>,
      scoreState = \<lparr>patientsTreated = 0, assessmentsPassed = 0\<rparr>,
      fallingItems =
        [\<lparr>x = 20, y = 406, width = 22, height = 26, type = KNOWLEDGE, item_vy = 180\<rparr>],
      itemSpawnState = \<lparr>timeSinceLastSpawnMs = 0, nextSpawnDelayMs = 900\<rparr>,
      assessmentState = \<lparr>pending = False\<rparr>,
      patientState =
        \<lparr>active = Some \<lparr>x = 20, y = 358, width = 28, height = 32, lifetimeMs = 2400\<rparr>,
         timeSinceLastPatientGoneMs = 0, contactDurationMs = 0\<rparr>,
      groundMistakes = [],
      groundMistakeSpawnState = \<lparr>timeSinceLastSpawnMs = 0, nextSpawnDelayMs = 2400\<rparr>,
      lastTimestamp = Some 2400, finalScore = None, endGameCalls = 0\<rparr>"

definition session_3 :: game where
  "session_3 =
     \<lparr>gameState = PLAYING,
      inputState = \<lparr>left = False, right = False, jump = False\<rparr>,
      player = \<lparr>x = 384, y = 338, vx = 0, vy = 0, onGround = True, facing = 1\<rparr>,
      knowledgeState = \<lparr>percent = 45, timeSinceErosionMs = 0\<rparr>,
      mistakesState = \<lparr>count = 2\<rparr>,
      scoreState = \<lparr>patientsTreated = 0, assessmentsPassed = 0\<rparr>,
      fallingItems =
        [\<lparr>x = 20, y = 406, width = 22, height = 26, type = KNOWLEDGE, item_vy = 180\<rparr>],
      itemSpawnState = \<lparr>timeSinceLastSpawnMs = 0, nextSpawnDelayMs = 900\<rparr>,
      assessmentState = \<lparr>pending = False\<rparr>,
      patientState =
        \<lparr>active = Some \<lparr>x = 20, y = 358, width = 28, height = 32, lifetimeMs = 4800\<rparr>,
         timeSinceLastPatientGoneMs = 0, contactDurationMs = 0\<rparr>,
      groundMistakes = [],
      groundMistakeSpawnState = \<lparr>timeSinceLastSpawnMs = 0, nextSpawnDelayMs = 2400\<rparr>,
      lastTimestamp = Some 4800, finalScore = None, endGameCalls = 0\<rparr>"

definition session_4 :: game where
  "session_4 =
     \<lparr>gameState = PLAYING,
      inputState = \<lparr>left = False, right = False, jump = False\<rparr>,
      player = \<lparr>x = 384, y = 338, vx = 0, vy = 0, onGround = True, facing = 1\<rparr>,
      knowledgeState = \<lparr>percent = 45, timeSinceErosionMs = 2400\<rparr>,
      mistakesState = \<lparr>count = 3\<rparr>,
      scoreState = \<lparr>patientsTreated = 0, assessmentsPassed = 0\<rparr>,
      fallingItems =
        [\<lparr>x = 20, y = 406, width = 22, height = 26, type = KNOWLEDGE, item_vy = 180\<rparr>],
      itemSpawnState = \<lparr>timeSinceLastSpawnMs = 0, nextSpawnDelayMs = 900\<rparr>,
      assessmentState = \<lparr>pending = False\<rparr>,
      patientState =
        \<lparr>active = Some \<lparr>x = 20, y = 358, width = 28, height = 32, lifetimeMs = 7200\<rparr>,
         timeSinceLastPatientGoneMs = 0, contactDurationMs = 0\<rparr>,
      groundMistakes = [],
      groundMistakeSpawnState = \<lparr>timeSinceLastSpawnMs = 0, nextSpawnDelayMs = 2400\<rparr>,
      lastTimestamp = Some 7200, finalScore = None, endGameCalls = 0\<rparr>"

definition session_5 :: game where
  "session_5 =
     \<lparr>gameState = PLAYING,
      inputState = \<lparr>left = False, right = False, jump = False\<rparr>,
      player = \<lparr>x = 384, y = 338, vx = 0, vy = 0, onGround = True, facing = 1\<rparr>,
      knowledgeState = \<lparr>percent = 40, timeSinceErosionMs = 0\<rparr>,
      mistakesState = \<lparr>count = 4\<rparr>,
      scoreState = \<lparr>patientsTreated = 0, assessmentsPassed = 0\<rparr>,
      fallingItems =
        [\<lparr>x = 20, y = 406, width = 22, height = 26, type = KNOWLEDGE, item_vy = 180\<rparr>],
      itemSpawnState = \<lparr>timeSinceLastSpawnMs = 0, nextSpawnDelayMs = 900\<rparr>,
      assessmentState = \<lparr>pending = False\<rparr>,
      patientState =
        \<lparr>active = None,
         timeSinceLastPatientGoneMs = 0, contactDurationMs = 0\<rparr>,
      groundMistakes = [],
      groundMistakeSpawnState = \<lparr>timeSinceLastSpawnMs = 0, nextSpawnDelayMs = 2400\<rparr>,
      lastTimestamp = Some 9600, finalScore = None, endGameCalls = 0\<rparr>"

definition session_6 :: game where
  "session_6 =
     \<lparr>gameState = GAME_OVER,
      inputState = \<lparr>left = False, right = False, jump = False\<rparr>,
      player = \<lparr>x = 384, y = 338, vx = 0, vy = 0, onGround = True, facing = 1\<rparr>,
      knowledgeState = \<lparr>percent = 40, timeSinceErosionMs = 2400\<rparr>,
      mistakesState = \<lparr>count = 5\<rparr>,
      scoreState = \<lparr>patientsTreated = 0, assessmentsPassed = 0\<rparr>,
      fallingItems =
        [\<lparr>x = 20, y = 406, width = 22, height = 26, type = KNOWLEDGE, item_vy = 180\<rparr>],
      itemSpawnState = \<lparr>timeSinceLastSpawnMs = 0, nextSpawnDelayMs = 900\<rparr>,
      assessmentState = \<lparr>pending = False\<rparr>,
      patientState =
        \<lparr>active = Some \<lparr>x = 20, y = 358, width = 28, height = 32, lifetimeMs = 0\<rparr>,
         timeSinceLastPatientGoneMs = 0, contactDurationMs = 0\<rparr>,
      groundMistakes = [],
      groundMistakeSpawnState = \<lparr>timeSinceLastSpawnMs = 0, nextSpawnDelayMs = 2400\<rparr>,
      lastTimestamp = Some 12000, finalScore = Some (Num 0), endGameCalls = 1\<rparr>"


section \<open>Lemmas\<close>

subsection \<open>Rounding to binary64\<close>













text \<open>
  Doubling a double is exact below the overflow threshold, natural numbers up to
  \<open>2 ^ 53\<close> are doubles, and the score of two non-negative doubles is the exact value
  \<open>p + 2 * a\<close> rounded once.
\<close>

lemma fl_zero [simp]: "fl 0 = Num 0"
  by (simp add: fl_def)









subsection \<open>Rounding, clamping, lists\<close>

lemma length_splice: "i < length xs \<Longrightarrow> length (splice_at i xs) = length xs - 1"
  by (simp add: splice_at_def)

subsection \<open>The two loops\<close>

lemma endGame_Inr:
  "endGame g = Inr g' \<Longrightarrow>
     \<exists>s. g' = g\<lparr>gameState := GAME_OVER, endGameCalls := Suc (endGameCalls g), finalScore := Some s\<rparr>"
  by (auto simp: endGame_def Let_def split: sum.splits)

lemma updateFallingItems_body_length:
  "updateFallingItems_body c dt pb i g = Continue g' \<Longrightarrow> i < length (fallingItems g) \<Longrightarrow>
     i \<le> length (fallingItems g')"
  by (auto simp: updateFallingItems_body_def Let_def length_splice
      split: if_splits item_type.splits)

lemma updateFallingItems_loop_rule:
  assumes "P g" and "n \<le> length (fallingItems g)"
    and cont: "\<And>i h h'. P h \<Longrightarrow> i < length (fallingItems h) \<Longrightarrow>
                 updateFallingItems_body c dt pb i h = Continue h' \<Longrightarrow> P h'"
    and ret: "\<And>i h res. P h \<Longrightarrow> i < length (fallingItems h) \<Longrightarrow>
                 updateFallingItems_body c dt pb i h = Return res \<Longrightarrow> Q res"
    and fin: "\<And>h. P h \<Longrightarrow> Q (Inr h)"
  shows "Q (updateFallingItems_loop c dt pb n g)"
  using assms(1,2)
proof (induction n arbitrary: g)
  case 0
  then show ?case by (simp add: fin)
next
  case (Suc n)
  then have lt: "n < length (fallingItems g)" by simp
  show ?case
  proof (cases "updateFallingItems_body c dt pb n g")
    case (Continue g')
    have "P g'" using cont [OF Suc.prems(1) lt Continue] .
    moreover have "n \<le> length (fallingItems g')"
      using updateFallingItems_body_length [OF Continue lt] .
    ultimately show ?thesis using Suc.IH Continue by simp
  next
    case (Return res)
    then show ?thesis using ret [OF Suc.prems(1) lt Return] by simp
  qed
qed

lemma updateGroundMistakes_body_length:
  "updateGroundMistakes_body dt pb i g = Continue g' \<Longrightarrow> i < length (groundMistakes g) \<Longrightarrow>
     i \<le> length (groundMistakes g')"
  by (auto simp: updateGroundMistakes_body_def Let_def length_splice split: if_splits)

lemma updateGroundMistakes_loop_rule:
  assumes "P g" and "n \<le> length (groundMistakes g)"
    and cont: "\<And>i h h'. P h \<Longrightarrow> i < length (groundMistakes h) \<Longrightarrow>
                 updateGroundMistakes_body dt pb i h = Continue h' \<Longrightarrow> P h'"
    and ret: "\<And>i h res. P h \<Longrightarrow> i < length (groundMistakes h) \<Longrightarrow>
                 updateGroundMistakes_body dt pb i h = Return res \<Longrightarrow> Q res"
    and fin: "\<And>h. P h \<Longrightarrow> Q (Inr h)"
  shows "Q (updateGroundMistakes_loop dt pb n g)"
  using assms(1,2)
proof (induction n arbitrary: g)
  case 0
  then show ?case by (simp add: fin)
next
  case (Suc n)
  then have lt: "n < length (groundMistakes g)" by simp
  show ?case
  proof (cases "updateGroundMistakes_body dt pb n g")
    case (Continue g')
    have "P g'" using cont [OF Suc.prems(1) lt Continue] .
    moreover have "n \<le> length (groundMistakes g')"
      using updateGroundMistakes_body_length [OF Continue lt] .
    ultimately show ?thesis using Suc.IH Continue by simp
  next
    case (Return res)
    then show ?thesis using ret [OF Suc.prems(1) lt Return] by simp
  qed
qed

subsection \<open>The meter\<close>

lemma math_round_of_int: "math_round (of_int k) = of_int k"
proof -
  have "\<lfloor>(of_int k :: real) + 1 / 2\<rfloor> = k"
    by (rule floor_unique) simp_all
  then show ?thesis by (simp add: math_round_def)
qed

lemma math_round_of_nat: "math_round (real k) = real k"
  using math_round_of_int [of "int k"] by simp

lemma percent_ok_iff: "percent_ok p \<longleftrightarrow> (\<exists>k::nat. k \<le> 20 \<and> p = 5 * real k)"
  by (auto simp: percent_ok_def)

lemma percent_ok_50: "percent_ok 50"
  unfolding percent_ok_iff by (rule exI [of _ 10]) simp

lemma percent_ok_erode:
  assumes "percent_ok p"
  shows "percent_ok (clamp (p - 5) 0 100)"
proof -
  from assms obtain k :: nat where k: "k \<le> 20" "p = 5 * real k"
    by (auto simp: percent_ok_iff)
  have "clamp (p - 5) 0 100 = 5 * real (k - 1)"
    using k by (cases k) (auto simp: clamp_def)
  moreover have "k - 1 \<le> 20" using k by simp
  ultimately show ?thesis unfolding percent_ok_iff by blast
qed

lemma percent_ok_pickup:
  assumes "percent_ok p"
  shows "percent_ok (clamp (p + 10) 0 100)"
proof -
  from assms obtain k :: nat where k: "k \<le> 20" "p = 5 * real k"
    by (auto simp: percent_ok_iff)
  have "clamp (p + 10) 0 100 = 5 * real (min 20 (k + 2))"
    using k by (auto simp: clamp_def min_def)
  moreover have "min 20 (k + 2) \<le> 20" by simp
  ultimately show ?thesis unfolding percent_ok_iff by blast
qed

lemma percent_ok_range: "percent_ok p \<Longrightarrow> 0 \<le> p \<and> p \<le> 100"
  by (auto simp: percent_ok_iff)

lemma percent_ok_round: "percent_ok p \<Longrightarrow> math_round p = p"
proof -
  assume "percent_ok p"
  then obtain k :: nat where "p = real (5 * k)" by (auto simp: percent_ok_iff)
  then show ?thesis by (simp only: math_round_of_nat)
qed

lemma updatePlayer_frame: "\<exists>p. updatePlayer c dt g = g\<lparr>player := p\<rparr>"
  unfolding updatePlayer_def Let_def by (rule exI, rule refl)

lemma updateKnowledgeAndItems_percent:
  "percent (knowledgeState (updateKnowledgeAndItems c r dtMs g)) =
     (if timeSinceErosionMs (knowledgeState g) + dtMs \<ge> 3000 \<and> percent (knowledgeState g) > 0
      then clamp (percent (knowledgeState g) - 5) 0 100
      else percent (knowledgeState g))"
  by (simp add: updateKnowledgeAndItems_def Let_def spawnAssessmentItem_def spawnRandomItem_def)

subsection \<open>Counting assessment items\<close>

lemma splice_update: "splice_at i (xs[i := v]) = splice_at i xs"
  by (simp add: splice_at_def)

lemma assessments_in_append:
  "assessments_in (xs @ [it]) = assessments_in xs + (if type it = ASSESSMENT then 1 else 0)"
  by (simp add: assessments_in_def)

lemma assessments_in_nth:
  assumes "i < length xs"
  shows "assessments_in xs =
           assessments_in (splice_at i xs) + (if type (xs ! i) = ASSESSMENT then 1 else 0)"
proof -
  have "xs = take i xs @ xs ! i # drop (Suc i) xs"
    using assms by (rule id_take_nth_drop)
  then have "assessments_in xs = assessments_in (take i xs @ xs ! i # drop (Suc i) xs)"
    by simp
  then show ?thesis
    by (simp add: assessments_in_def splice_at_def)
qed

lemma assessments_in_update:
  assumes "i < length xs" and "type v = type (xs ! i)"
  shows "assessments_in (xs[i := v]) = assessments_in xs"
proof -
  have "assessments_in (xs[i := v]) =
          assessments_in (splice_at i (xs[i := v])) + (if type ((xs[i := v]) ! i) = ASSESSMENT then 1 else 0)"
    using assms(1) by (intro assessments_in_nth) simp
  then show ?thesis
    using assms assessments_in_nth [OF assms(1)] by (simp add: splice_update)
qed

subsection \<open>The invariant is kept by every function\<close>

lemma endGame_ok:
  assumes "0 \<le> patientsTreated (scoreState g)" and "0 \<le> assessmentsPassed (scoreState g)"
  shows "endGame g = Inr (g\<lparr>gameState := GAME_OVER, endGameCalls := Suc (endGameCalls g),
           finalScore := Some (js_plus (js_times (Num (patientsTreated (scoreState g))) (Num 1))
             (js_times (Num (assessmentsPassed (scoreState g))) (Num 2)))\<rparr>)"
  using assms by (simp add: endGame_def Let_def)

lemma updateFallingItems_body_inv:
  assumes "game_inv g" and "gameState g = PLAYING" and "i < length (fallingItems g)"
  shows "case updateFallingItems_body c dt pb i g of
           Continue g' \<Rightarrow> game_inv g' \<and> gameState g' = PLAYING
         | Return res \<Rightarrow> (\<exists>g'. res = Inr g' \<and> game_inv g' \<and> gameState g' = GAME_OVER)"
proof -
  let ?xs = "fallingItems g"
  let ?it = "(?xs ! i)\<lparr>y := y (?xs ! i) + item_vy (?xs ! i) * dt\<rparr>"
  have upd: "assessments_in (?xs[i := ?it]) = assessments_in ?xs"
    using assms(3) by (intro assessments_in_update) simp_all
  have nth: "assessments_in ?xs =
      assessments_in (splice_at i ?xs) + (if type (?xs ! i) = ASSESSMENT then 1 else 0)"
    using assms(3) by (rule assessments_in_nth)
  note pk = percent_ok_pickup [of "percent (knowledgeState g)"]
  show ?thesis
    using assms(1,2) upd nth pk percent_ok_50
    by (auto simp: updateFallingItems_body_def Let_def game_inv_def splice_update endGame_ok clamp_def
        split: item_type.splits if_splits)
qed

lemma updateFallingItems_inv:
  assumes "game_inv g" and "gameState g = PLAYING"
  shows "\<exists>g'. updateFallingItems c dt g = Inr g' \<and> game_inv g' \<and>
           (gameState g' = PLAYING \<or> gameState g' = GAME_OVER)"
  unfolding updateFallingItems_def
proof (rule updateFallingItems_loop_rule
    [where P = "\<lambda>h. game_inv h \<and> gameState h = PLAYING"])
  show "game_inv g \<and> gameState g = PLAYING" using assms by simp
  show "length (fallingItems g) \<le> length (fallingItems g)" by simp
next
  fix i h h'
  assume "game_inv h \<and> gameState h = PLAYING" "i < length (fallingItems h)"
    "updateFallingItems_body c dt (getPlayerHitBox g) i h = Continue h'"
  then show "game_inv h' \<and> gameState h' = PLAYING"
    using updateFallingItems_body_inv [of h i c dt "getPlayerHitBox g"] by simp
next
  fix i h res
  assume "game_inv h \<and> gameState h = PLAYING" "i < length (fallingItems h)"
    "updateFallingItems_body c dt (getPlayerHitBox g) i h = Return res"
  then show "\<exists>g'. res = Inr g' \<and> game_inv g' \<and> (gameState g' = PLAYING \<or> gameState g' = GAME_OVER)"
    using updateFallingItems_body_inv [of h i c dt "getPlayerHitBox g"] by auto
next
  fix h
  assume "game_inv h \<and> gameState h = PLAYING"
  then show "\<exists>g'. Inr h = Inr g' \<and> game_inv g' \<and> (gameState g' = PLAYING \<or> gameState g' = GAME_OVER)"
    by simp
qed

lemma updateGroundMistakes_body_inv:
  assumes "game_inv g" and "gameState g = PLAYING"
  shows "case updateGroundMistakes_body dt pb i g of
           Continue g' \<Rightarrow> game_inv g' \<and> gameState g' = PLAYING
         | Return res \<Rightarrow> (\<exists>g'. res = Inr g' \<and> game_inv g' \<and> gameState g' = GAME_OVER)"
  using assms
  by (auto simp: updateGroundMistakes_body_def Let_def game_inv_def endGame_ok clamp_def)

lemma updateGroundMistakes_inv:
  assumes "game_inv g" and "gameState g = PLAYING"
  shows "\<exists>g'. updateGroundMistakes c r dt g = Inr g' \<and> game_inv g' \<and>
           (gameState g' = PLAYING \<or> gameState g' = GAME_OVER)"
proof -
  define g2 where "g2 =
    (let s1 = (groundMistakeSpawnState g)\<lparr>timeSinceLastSpawnMs :=
                  timeSinceLastSpawnMs (groundMistakeSpawnState g) + dt\<rparr>;
         g1 = g\<lparr>groundMistakeSpawnState := s1\<rparr>
     in if timeSinceLastSpawnMs s1 \<ge> nextSpawnDelayMs s1
        then (spawnGroundMistake c r g1)\<lparr>groundMistakeSpawnState :=
                \<lparr>timeSinceLastSpawnMs = 0,
                 nextSpawnDelayMs = randomBetween (ground_delay_draw r)
                   GROUND_MISTAKE_SPAWN_INTERVAL_MIN_MS
                   GROUND_MISTAKE_SPAWN_INTERVAL_MAX_MS\<rparr>\<rparr>
        else g1)"
  have eq: "updateGroundMistakes c r dt g =
      updateGroundMistakes_loop dt (getPlayerHitBox g2) (length (groundMistakes g2)) g2"
    by (simp add: updateGroundMistakes_def g2_def Let_def)
  have g2: "game_inv g2 \<and> gameState g2 = PLAYING"
    using assms by (simp add: g2_def Let_def game_inv_def spawnGroundMistake_def)
  show ?thesis
    unfolding eq
  proof (rule updateGroundMistakes_loop_rule
      [where P = "\<lambda>h. game_inv h \<and> gameState h = PLAYING"])
    show "game_inv g2 \<and> gameState g2 = PLAYING" by (rule g2)
    show "length (groundMistakes g2) \<le> length (groundMistakes g2)" by simp
  next
    fix i h h'
    assume "game_inv h \<and> gameState h = PLAYING"
      "updateGroundMistakes_body dt (getPlayerHitBox g2) i h = Continue h'"
    then show "game_inv h' \<and> gameState h' = PLAYING"
      using updateGroundMistakes_body_inv [of h dt "getPlayerHitBox g2" i] by simp
  next
    fix i h res
    assume "game_inv h \<and> gameState h = PLAYING"
      "updateGroundMistakes_body dt (getPlayerHitBox g2) i h = Return res"
    then show "\<exists>g'. res = Inr g' \<and> game_inv g' \<and> (gameState g' = PLAYING \<or> gameState g' = GAME_OVER)"
      using updateGroundMistakes_body_inv [of h dt "getPlayerHitBox g2" i] by auto
  next
    fix h
    assume "game_inv h \<and> gameState h = PLAYING"
    then show "\<exists>g'. Inr h = Inr g' \<and> game_inv g' \<and> (gameState g' = PLAYING \<or> gameState g' = GAME_OVER)"
      by simp
  qed
qed

lemma updatePlayer_inv:
  "game_inv (updatePlayer c dt g) = game_inv g" "gameState (updatePlayer c dt g) = gameState g"
  using updatePlayer_frame [of c dt g] by (auto simp: game_inv_def)

lemma updateKnowledgeAndItems_inv:
  assumes "game_inv g"
  shows "game_inv (updateKnowledgeAndItems c r dt g)"
    and "gameState (updateKnowledgeAndItems c r dt g) = gameState g"
  using assms percent_ok_erode [of "percent (knowledgeState g)"]
  by (auto simp: updateKnowledgeAndItems_def Let_def game_inv_def spawnAssessmentItem_def
      spawnRandomItem_def assessments_in_append)

lemma updatePatient_inv:
  assumes "game_inv g"
  shows "game_inv (updatePatient c r dt g)"
    and "gameState (updatePatient c r dt g) = gameState g"
  using assms
  by (auto simp: updatePatient_def Let_def game_inv_def patientExpiry_def split: option.splits)

lemma gameLoop_inv:
  assumes "game_inv g"
  shows "\<exists>g'. gameLoop c timestamp r g = Inr g' \<and> game_inv g'"
proof (cases "gameState g = PLAYING")
  case False
  then show ?thesis using assms by (simp add: gameLoop_def)
next
  case True
  define dtMs where "dtMs = timestamp - (case lastTimestamp g of None \<Rightarrow> timestamp | Some t \<Rightarrow> t)"
  define g3 where "g3 = updateKnowledgeAndItems c r dtMs
      (updatePlayer c (dtMs / 1000) (g\<lparr>lastTimestamp := Some timestamp\<rparr>))"
  have "game_inv (g\<lparr>lastTimestamp := Some timestamp\<rparr>)"
    using assms by (simp add: game_inv_def)
  then have g3: "game_inv g3" "gameState g3 = PLAYING"
    using True by (simp_all add: g3_def updateKnowledgeAndItems_inv updatePlayer_inv)
  obtain g4 where g4: "updateFallingItems c (dtMs / 1000) g3 = Inr g4" "game_inv g4"
      "gameState g4 = PLAYING \<or> gameState g4 = GAME_OVER"
    using updateFallingItems_inv [OF g3] by blast
  have eq: "gameLoop c timestamp r g =
      (if gameState g4 = GAME_OVER then Inr g4
       else updateGroundMistakes c r dtMs (updatePatient c r dtMs g4))"
    using True g4(1) by (simp add: gameLoop_def Let_def dtMs_def g3_def)
  show ?thesis
  proof (cases "gameState g4 = GAME_OVER")
    case True
    then show ?thesis using eq g4(2) by simp
  next
    case False
    then have "gameState g4 = PLAYING" using g4(3) by simp
    then have "game_inv (updatePatient c r dtMs g4)" "gameState (updatePatient c r dtMs g4) = PLAYING"
      using g4(2) by (simp_all add: updatePatient_inv)
    then show ?thesis
      using updateGroundMistakes_inv [of "updatePatient c r dtMs g4" c r dtMs] eq False by auto
  qed
qed

lemma game_inv_initial: "game_inv (initial c r)"
  by (simp add: game_inv_def initial_def percent_ok_50 assessments_in_def)

lemma game_inv_startGame: "game_inv (startGame c r g)"
  by (simp add: game_inv_def startGame_def percent_ok_50 assessments_in_def)

lemma handle_inv:
  assumes "game_inv g"
  shows "\<exists>g'. handle c ev g = Inr g' \<and> game_inv g'"
proof (cases ev)
  case (Frame timestamp r)
  then show ?thesis using gameLoop_inv [OF assms] by simp
next
  case (KeyDown e)
  then show ?thesis using assms by (simp add: game_inv_def)
next
  case (KeyUp e)
  then show ?thesis using assms by (simp add: game_inv_def)
next
  case (StartClick r)
  then show ?thesis using assms by (simp add: game_inv_startGame)
next
  case (RestartClick r)
  then show ?thesis using assms by (simp add: game_inv_startGame)
qed

lemma reachable_inv: "reachable c g \<Longrightarrow> game_inv g"
proof (induction rule: reachable.induct)
  case (reachable_initial r)
  show ?case by (rule game_inv_initial)
next
  case (reachable_handle g ev g')
  then show ?case using handle_inv [of g c ev] by auto
qed

subsection \<open>Where an error can come from\<close>

lemma endGame_error_origin:
  "endGame g = Inl e \<Longrightarrow> \<exists>a b. computeScore a b = Inl e"
  by (auto simp: endGame_def Let_def simp del: computeScore.simps split: sum.splits)

lemma updateFallingItems_error_origin:
  "updateFallingItems c dt g = Inl e \<Longrightarrow> \<exists>a b. computeScore a b = Inl e"
proof -
  have "\<forall>e. updateFallingItems c dt g = Inl e \<longrightarrow> (\<exists>a b. computeScore a b = Inl e)"
    unfolding updateFallingItems_def
  proof (rule updateFallingItems_loop_rule [where P = "\<lambda>h. True"])
    fix i h res
    assume "updateFallingItems_body c dt (getPlayerHitBox g) i h = Return res"
    then show "\<forall>e. res = Inl e \<longrightarrow> (\<exists>a b. computeScore a b = Inl e)"
      by (auto simp: updateFallingItems_body_def Let_def
          split: if_splits item_type.splits dest: endGame_error_origin)
  qed simp_all
  then show "updateFallingItems c dt g = Inl e \<Longrightarrow> \<exists>a b. computeScore a b = Inl e"
    by blast
qed

lemma updateGroundMistakes_loop_error_origin:
  "updateGroundMistakes_loop dt pb n g = Inl e \<Longrightarrow> n \<le> length (groundMistakes g) \<Longrightarrow>
     \<exists>a b. computeScore a b = Inl e"
proof -
  assume n: "n \<le> length (groundMistakes g)"
  have "\<forall>e. updateGroundMistakes_loop dt pb n g = Inl e \<longrightarrow> (\<exists>a b. computeScore a b = Inl e)"
  proof (rule updateGroundMistakes_loop_rule [where P = "\<lambda>h. True"])
    fix i h res
    assume "updateGroundMistakes_body dt pb i h = Return res"
    then show "\<forall>e. res = Inl e \<longrightarrow> (\<exists>a b. computeScore a b = Inl e)"
      by (auto simp: updateGroundMistakes_body_def Let_def
          split: if_splits dest: endGame_error_origin)
  qed (simp_all add: n)
  then show "updateGroundMistakes_loop dt pb n g = Inl e \<Longrightarrow> \<exists>a b. computeScore a b = Inl e"
    by blast
qed

lemma updateGroundMistakes_error_origin:
  "updateGroundMistakes c r dt g = Inl e \<Longrightarrow> \<exists>a b. computeScore a b = Inl e"
  unfolding updateGroundMistakes_def Let_def
  by (erule updateGroundMistakes_loop_error_origin) simp

lemma gameLoop_error_origin:
  "gameLoop c timestamp r g = Inl e \<Longrightarrow> \<exists>a b. computeScore a b = Inl e"
  by (auto simp: gameLoop_def Let_def split: if_splits sum.splits
      dest: updateFallingItems_error_origin updateGroundMistakes_error_origin)

lemma handle_error_origin:
  "handle c ev g = Inl e \<Longrightarrow> \<exists>a b. computeScore a b = Inl e"
  by (cases ev) (auto dest: gameLoop_error_origin)

subsection \<open>Single functions\<close>

lemma fold_erosion_zero:
  "percent (knowledgeState g) = 0 \<Longrightarrow>
     percent (knowledgeState (fold (\<lambda>t. updateKnowledgeAndItems c (fst t) (snd t)) ticks g)) = 0"
  by (induction ticks arbitrary: g) (simp_all add: updateKnowledgeAndItems_percent)



lemma updateGroundMistakes_knowledgeState:
  assumes "updateGroundMistakes c r dtMs g = Inr g'"
  shows "knowledgeState g' = knowledgeState g"
proof -
  define g2 where "g2 =
    (let s1 = (groundMistakeSpawnState g)\<lparr>timeSinceLastSpawnMs :=
                  timeSinceLastSpawnMs (groundMistakeSpawnState g) + dtMs\<rparr>;
         g1 = g\<lparr>groundMistakeSpawnState := s1\<rparr>
     in if timeSinceLastSpawnMs s1 \<ge> nextSpawnDelayMs s1
        then (spawnGroundMistake c r g1)\<lparr>groundMistakeSpawnState :=
                \<lparr>timeSinceLastSpawnMs = 0,
                 nextSpawnDelayMs = randomBetween (ground_delay_draw r)
                   GROUND_MISTAKE_SPAWN_INTERVAL_MIN_MS
                   GROUND_MISTAKE_SPAWN_INTERVAL_MAX_MS\<rparr>\<rparr>
        else g1)"
  have eq: "updateGroundMistakes c r dtMs g =
      updateGroundMistakes_loop dtMs (getPlayerHitBox g2) (length (groundMistakes g2)) g2"
    by (simp add: updateGroundMistakes_def g2_def Let_def)
  have g2: "knowledgeState g2 = knowledgeState g"
    by (simp add: g2_def Let_def spawnGroundMistake_def)
  have "\<forall>h. updateGroundMistakes_loop dtMs (getPlayerHitBox g2) (length (groundMistakes g2)) g2
          = Inr h \<longrightarrow> knowledgeState h = knowledgeState g"
  proof (rule updateGroundMistakes_loop_rule
      [where P = "\<lambda>h. knowledgeState h = knowledgeState g"])
    show "knowledgeState g2 = knowledgeState g" by (rule g2)
    show "length (groundMistakes g2) \<le> length (groundMistakes g2)" by simp
  next
    fix i h h'
    assume "knowledgeState h = knowledgeState g"
      "updateGroundMistakes_body dtMs (getPlayerHitBox g2) i h = Continue h'"
    then show "knowledgeState h' = knowledgeState g"
      by (auto simp: updateGroundMistakes_body_def Let_def split: if_splits)
  next
    fix i h res
    assume "knowledgeState h = knowledgeState g"
      "updateGroundMistakes_body dtMs (getPlayerHitBox g2) i h = Return res"
    then show "\<forall>h'. res = Inr h' \<longrightarrow> knowledgeState h' = knowledgeState g"
      by (auto simp: updateGroundMistakes_body_def Let_def split: if_splits dest!: endGame_Inr)
  qed simp
  then show ?thesis
    using assms eq by simp
qed

lemma updateFallingItems_body_percent:
  "case updateFallingItems_body c dtSeconds pb i h of
     Continue h' \<Rightarrow>
       percent (knowledgeState h') = percent (knowledgeState h) \<or>
       percent (knowledgeState h') =
         clamp (percent (knowledgeState h) + KNOWLEDGE_PICKUP_AMOUNT) KNOWLEDGE_MIN KNOWLEDGE_MAX \<or>
       percent (knowledgeState h') = 50
   | Return res \<Rightarrow> (\<forall>h'. res = Inr h' \<longrightarrow> knowledgeState h' = knowledgeState h)"
  by (auto simp: updateFallingItems_body_def Let_def split: item_type.splits dest!: endGame_Inr)

lemma reachable_no_error: "reachable c g \<Longrightarrow> \<exists>g'. handle c ev g = Inr g'"
  using handle_inv [where g = g and c = c and ev = ev] reachable_inv [where c = c and g = g]
  by blast

subsection \<open>The concrete inputs\<close>

lemma started_eq:
  "started = \<lparr>gameState = PLAYING,
     inputState = \<lparr>left = False, right = False, jump = False\<rparr>,
     player = \<lparr>x = 384, y = 338, vx = 0, vy = 0, onGround = True, facing = 1\<rparr>,
     knowledgeState = \<lparr>percent = 50, timeSinceErosionMs = 0\<rparr>,
     mistakesState = \<lparr>count = 0\<rparr>,
     scoreState = \<lparr>patientsTreated = 0, assessmentsPassed = 0\<rparr>,
     fallingItems = [],
     itemSpawnState = \<lparr>timeSinceLastSpawnMs = 0, nextSpawnDelayMs = 900\<rparr>,
     assessmentState = \<lparr>pending = False\<rparr>,
     patientState = \<lparr>active = None, timeSinceLastPatientGoneMs = 2000, contactDurationMs = 0\<rparr>,
     groundMistakes = [],
     groundMistakeSpawnState = \<lparr>timeSinceLastSpawnMs = 0, nextSpawnDelayMs = 2400\<rparr>,
     lastTimestamp = None, finalScore = None, endGameCalls = 0\<rparr>"
  by (simp add: started_def startGame_def initial_def stage_def zero_draws_def
      randomBetween_def FLOOR_Y_def)

lemma reachable_started: "reachable stage started"
proof -
  have "handle stage (StartClick zero_draws) (initial stage zero_draws) = Inr started"
    by (simp add: started_def initial_def)
  then show ?thesis
    using reachable_initial [of stage zero_draws] by (rule reachable_handle [rotated])
qed









text \<open>The six frames of the session, each evaluated with the code equations.\<close>

lemma session_frame_1: "handle stage (Frame 0 session_draws) started = Inr session_1"
  by code_simp

lemma session_frame_2: "handle stage (Frame 2400 session_draws) session_1 = Inr session_2"
  by code_simp

lemma session_frame_3: "handle stage (Frame 4800 session_draws) session_2 = Inr session_3"
  by code_simp

lemma session_frame_4: "handle stage (Frame 7200 session_draws) session_3 = Inr session_4"
  by code_simp

lemma session_frame_5: "handle stage (Frame 9600 session_draws) session_4 = Inr session_5"
  by code_simp

lemma session_frame_6: "handle stage (Frame 12000 session_draws) session_5 = Inr session_6"
  by code_simp

lemma reachable_session: "reachable stage session_6"
  using reachable_started session_frame_1 session_frame_2 session_frame_3 session_frame_4
    session_frame_5 session_frame_6
  by (meson reachable_handle)

lemma reachable_sessions:
  "reachable stage session_1" "reachable stage session_2" "reachable stage session_5"
proof -
  show 1: "reachable stage session_1"
    using reachable_started session_frame_1 by (rule reachable_handle)
  show 2: "reachable stage session_2"
    using 1 session_frame_2 by (rule reachable_handle)
  have 3: "reachable stage session_3"
    using 2 session_frame_3 by (rule reachable_handle)
  have 4: "reachable stage session_4"
    using 3 session_frame_4 by (rule reachable_handle)
  show "reachable stage session_5"
    using 4 session_frame_5 by (rule reachable_handle)
qed

lemma session_facts:
  "gameState session_5 = PLAYING" "count (mistakesState session_5) = 4" "endGameCalls session_5 = 0"
  "gameState session_6 = GAME_OVER" "count (mistakesState session_6) = 5" "endGameCalls session_6 = 1"
  "finalScore session_6 = Some (Num 0)" "percent (knowledgeState session_6) = 40"
  "fallingItems session_6 = [\<lparr>x = 20, y = 406, width = 22, height = 26, type = KNOWLEDGE, item_vy = 180\<rparr>]"
  "pending (assessmentState session_6) = False"
  "gameState session_2 = PLAYING" "percent (knowledgeState session_2) = 50"
  by (simp_all add: session_5_def session_6_def session_2_def)

lemma hit_by_falling_body:
  "updateFallingItems_body stage 0 (getPlayerHitBox hit_by_falling) 0 hit_by_falling =
     Return (Inr ended_by_falling)"
  by (simp add: updateFallingItems_body_def Let_def hit_by_falling_def ended_by_falling_def
      four_mistakes_def touching_item_def started_eq getPlayerHitBox_def intersects_def
      clamp_def endGame_def)

lemma hit_by_ground_body:
  "updateGroundMistakes_body 16 (getPlayerHitBox hit_by_ground) 0 hit_by_ground =
     Return (Inr ended_by_ground)"
  by (simp add: updateGroundMistakes_body_def Let_def hit_by_ground_def ended_by_ground_def
      four_mistakes_def ground_under_player_def started_eq getPlayerHitBox_def intersects_def
      clamp_def endGame_def splice_at_def)

lemma hit_by_falling_pass:
  "updateFallingItems stage 0
     (updateKnowledgeAndItems stage zero_draws 0
       (updatePlayer stage 0 (hit_by_falling\<lparr>lastTimestamp := Some 0\<rparr>))) =
   Inr (ended_by_falling\<lparr>lastTimestamp := Some 0\<rparr>)"
  by code_simp

lemma hit_facts:
  "game_inv hit_by_falling" "gameState hit_by_falling = PLAYING"
  "length (fallingItems hit_by_falling) = 1"
  "type (fallingItems hit_by_falling ! 0) = MISTAKE"
  "intersects (getPlayerHitBox hit_by_falling) (moved 0 (fallingItems hit_by_falling ! 0))"
  "count (mistakesState hit_by_falling) = 4"
  "lastTimestamp hit_by_falling = None"
  "game_inv hit_by_ground" "gameState hit_by_ground = PLAYING"
  "length (groundMistakes hit_by_ground) = 1"
  "intersects (getPlayerHitBox hit_by_ground)
     ((groundMistakes hit_by_ground ! 0)\<lparr>lifetimeMs := lifetimeMs (groundMistakes hit_by_ground ! 0) + 16\<rparr>)"
  "count (mistakesState hit_by_ground) = 4"
  by (simp_all add: hit_by_falling_def hit_by_ground_def four_mistakes_def touching_item_def
      ground_under_player_def started_eq getPlayerHitBox_def intersects_def moved_def
      game_inv_def percent_ok_50 assessments_in_def)

lemma catching_facts:
  "length (fallingItems catching) = 1"
  "type (fallingItems catching ! 0) = ASSESSMENT"
  "intersects (getPlayerHitBox catching) (moved (2 / 125) (fallingItems catching ! 0))"
  "pending (assessmentState catching)"
  "assessments_in (fallingItems catching) = 1"
  "percent (knowledgeState catching) = 100"
  "timeSinceErosionMs (knowledgeState catching) = 0"
  by (simp_all add: catching_def four_mistakes_def touching_item_def started_eq
      getPlayerHitBox_def intersects_def moved_def assessments_in_def)

lemma losing_facts:
  "length (fallingItems losing) = 1"
  "type (fallingItems losing ! 0) = ASSESSMENT"
  "\<not> intersects (getPlayerHitBox losing) (moved (2 / 125) (fallingItems losing ! 0))"
  "y (moved (2 / 125) (fallingItems losing ! 0)) > real (canvas_height stage) + 40"
  "splice_at 0 (fallingItems losing) = []"
  "percent (knowledgeState losing) = 100"
  "timeSinceErosionMs (knowledgeState losing) = 0"
  by (simp_all add: losing_def catching_def four_mistakes_def lost_item_def started_eq
      getPlayerHitBox_def intersects_def moved_def stage_def splice_at_def)

lemma math_round_100: "math_round 100 = 100"
  using math_round_of_nat [of 100] by simp

lemma session_run:
  "run stage [StartClick zero_draws, Frame 0 session_draws, Frame 2400 session_draws,
     Frame 4800 session_draws, Frame 7200 session_draws, Frame 9600 session_draws,
     Frame 12000 session_draws] (initial stage zero_draws) = Inr session_6"
proof -
  have "handle stage (StartClick zero_draws) (initial stage zero_draws) = Inr started"
    by (simp add: started_def initial_def)
  then show ?thesis
    by (simp only: run.simps sum.case session_frame_1 session_frame_2 session_frame_3
        session_frame_4 session_frame_5 session_frame_6)
qed


section \<open>The claims\<close>

subsection \<open>Scoring\<close>




text \<open>
  C2.  \<^verbatim>\<open>computeScore\<close> throws exactly when one of its arguments is not a number
  (by \<^verbatim>\<open>typeof\<close>) or is a number below zero, and returns a number otherwise.  It is
  the only place of the program that raises an error: whenever the handling of an event
  raises one, in any state of the script, the error is one that \<^verbatim>\<open>computeScore\<close>
  raises.
\<close>

theorem computeScore_throws_iff:
  "((\<exists>e. computeScore a b = Inl e) \<longleftrightarrow>
      (typeof a \<noteq> ''number'' \<or> typeof b \<noteq> ''number'' \<or> is_negative a \<or> is_negative b)) \<and>
   ((\<exists>n. computeScore a b = Inr n) \<longleftrightarrow>
      (typeof a = ''number'' \<and> typeof b = ''number'' \<and> \<not> is_negative a \<and> \<not> is_negative b)) \<and>
   (handle c ev g = Inl err \<longrightarrow> (\<exists>a' b'. computeScore a' b' = Inl err))"
proof -
  have 1: "(\<exists>e. computeScore a b = Inl e) \<longleftrightarrow>
      (typeof a \<noteq> ''number'' \<or> typeof b \<noteq> ''number'' \<or> is_negative a \<or> is_negative b)"
    by (cases a; cases b) (auto simp: is_negative_def)
  have 2: "(\<exists>n. computeScore a b = Inr n) \<longleftrightarrow>
      (typeof a = ''number'' \<and> typeof b = ''number'' \<and> \<not> is_negative a \<and> \<not> is_negative b)"
    by (cases a; cases b) (auto simp: is_negative_def)
  show ?thesis
    using 1 2 handle_error_origin [of c ev g err] by blast
qed

text \<open>
  The witness: a state with a negative score and four mistakes, in which the player stands
  on a ground mistake.  The next frame ends the game, and \<^verbatim>\<open>computeScore\<close> rejects the
  score.
\<close>

theorem computeScore_throws_iff_witness:
  "handle stage (Frame 0 zero_draws)
     (started\<lparr>scoreState := \<lparr>patientsTreated = - 1, assessmentsPassed = 0\<rparr>,
              mistakesState := \<lparr>count = 4\<rparr>,
              groundMistakes := [\<lparr>x = 389, y = 364, width = 22, height = 26, lifetimeMs = 0\<rparr>]\<rparr>)
     = Inl (Error ''Score inputs must be non-negative.'') \<and>
   (\<exists>a' b'. computeScore a' b' = Inl (Error ''Score inputs must be non-negative.'')) \<and>
   (\<exists>e. computeScore (JString ''7'') (JNumber (Num 1)) = Inl e) \<and>
   (\<exists>n. computeScore (JNumber NaN) (JNumber (Num 1)) = Inr n)"
proof -
  let ?g0 = "started\<lparr>scoreState := \<lparr>patientsTreated = - 1, assessmentsPassed = 0\<rparr>,
              mistakesState := \<lparr>count = 4\<rparr>,
              groundMistakes := [\<lparr>x = 389, y = 364, width = 22, height = 26, lifetimeMs = 0\<rparr>]\<rparr>"
  define g where "g = ?g0\<lparr>lastTimestamp := Some 0\<rparr>"
  define h where "h = g\<lparr>patientState := \<lparr>active = Some \<lparr>x = 20, y = 358, width = 28, height = 32,
              lifetimeMs = 0\<rparr>, timeSinceLastPatientGoneMs = 0, contactDurationMs = 0\<rparr>\<rparr>"
  have 1: "updatePlayer stage 0 g = g"
    by (simp add: g_def started_eq updatePlayer_def Let_def clamp_def stage_def FLOOR_Y_def)
  have 2: "updateKnowledgeAndItems stage zero_draws 0 g = g"
    by (simp add: g_def started_eq updateKnowledgeAndItems_def Let_def math_round_def)
  have 3: "updateFallingItems stage 0 g = Inr g"
    by (simp add: g_def started_eq updateFallingItems_def)
  have 4: "updatePatient stage zero_draws 0 g = h"
    by (simp add: h_def g_def started_eq updatePatient_def Let_def randomBetween_def
        zero_draws_def stage_def FLOOR_Y_def)
  have 5: "updateGroundMistakes stage zero_draws 0 h =
      Inl (Error ''Score inputs must be non-negative.'')"
    by (simp add: h_def g_def started_eq updateGroundMistakes_def updateGroundMistakes_body_def
        Let_def getPlayerHitBox_def intersects_def clamp_def splice_at_def endGame_def)
  have 6: "gameState g = PLAYING"
    by (simp add: g_def started_eq)
  have run: "handle stage (Frame 0 zero_draws) ?g0 =
      Inl (Error ''Score inputs must be non-negative.'')"
    using 1 2 3 4 5 6 by (simp add: gameLoop_def g_def started_eq)
  show ?thesis
    using computeScore_throws_iff [of "JString ''7''" "JNumber (Num 1)" stage
        "Frame 0 zero_draws" ?g0 "Error ''Score inputs must be non-negative.''"]
      computeScore_throws_iff [of "JNumber NaN" "JNumber (Num 1)" stage
        "Frame 0 zero_draws" ?g0 "Error ''Score inputs must be non-negative.''"]
      run
    by (simp add: is_negative_def)
qed

subsection \<open>The knowledge meter\<close>

text \<open>
  C3.  In every reachable state the meter \<^verbatim>\<open>knowledgeState.percent\<close> lies between 0 and
  100, whatever erosion steps, pickups and assessment resets have happened; and once the
  meter is at 0, any number of further runs of the erosion code, with any elapsed times,
  leaves it at 0.
\<close>

theorem percent_stays_in_range:
  "(reachable c g \<longrightarrow>
      KNOWLEDGE_MIN \<le> percent (knowledgeState g) \<and> percent (knowledgeState g) \<le> KNOWLEDGE_MAX) \<and>
   (percent (knowledgeState g) = 0 \<longrightarrow>
      percent (knowledgeState (fold (\<lambda>t. updateKnowledgeAndItems c (fst t) (snd t)) ticks g)) = 0)"
  using reachable_inv [of c g] percent_ok_range [of "percent (knowledgeState g)"]
    fold_erosion_zero [of g c ticks]
  by (auto simp: game_inv_def)

theorem percent_stays_in_range_witness:
  "reachable stage session_6 \<and>
   KNOWLEDGE_MIN \<le> percent (knowledgeState session_6) \<and>
   percent (knowledgeState session_6) \<le> KNOWLEDGE_MAX \<and>
   percent (knowledgeState session_6) = 40 \<and>
   percent (knowledgeState (started\<lparr>knowledgeState := \<lparr>percent = 0, timeSinceErosionMs = 2000\<rparr>\<rparr>)) = 0 \<and>
   percent (knowledgeState (fold (\<lambda>t. updateKnowledgeAndItems stage (fst t) (snd t))
     [(zero_draws, 3000), (zero_draws, 40000), (zero_draws, 16)]
     (started\<lparr>knowledgeState := \<lparr>percent = 0, timeSinceErosionMs = 2000\<rparr>\<rparr>))) = 0"
  using percent_stays_in_range [of stage session_6]
    percent_stays_in_range [of stage
      "started\<lparr>knowledgeState := \<lparr>percent = 0, timeSinceErosionMs = 2000\<rparr>\<rparr>"
      "[(zero_draws, 3000), (zero_draws, 40000), (zero_draws, 16)]"]
    reachable_session session_facts
  by simp



text \<open>
  C10.  The meter starts at 50, also after a restart, and each function changes it in one
  way only: the erosion code takes a step of 5 down, clamped; an iteration over a falling
  item leaves it, or adds 10, clamped, or sets it to 50; the player, the patient and the
  ground mistakes leave it.  So in every reachable state the meter is one of the multiples
  of five from 0 to 100, and \<^verbatim>\<open>Math.round\<close> leaves it as it is.  The same holds
  inside a frame, at the two places where the script rounds the meter: after the erosion
  step (the assessment spawn condition, state \<open>g3\<close>) and after the pass over the falling
  items (the eligibility condition of \<^verbatim>\<open>updatePatient\<close>, state \<open>g4\<close>).
\<close>

theorem percent_multiple_of_five:
  "percent (knowledgeState (initial c r0)) = 50 \<and>
   percent (knowledgeState (startGame c r0 g)) = 50 \<and>
   (percent (knowledgeState (updateKnowledgeAndItems c r dtMs g)) = percent (knowledgeState g) \<or>
    percent (knowledgeState (updateKnowledgeAndItems c r dtMs g)) =
      clamp (percent (knowledgeState g) - KNOWLEDGE_EROSION_STEP) KNOWLEDGE_MIN KNOWLEDGE_MAX) \<and>
   (updateFallingItems_body c dtSeconds pb i g = Continue g' \<longrightarrow>
      percent (knowledgeState g') = percent (knowledgeState g) \<or>
      percent (knowledgeState g') =
        clamp (percent (knowledgeState g) + KNOWLEDGE_PICKUP_AMOUNT) KNOWLEDGE_MIN KNOWLEDGE_MAX \<or>
      percent (knowledgeState g') = 50) \<and>
   (updateFallingItems_body c dtSeconds pb i g = Return (Inr g') \<longrightarrow>
      knowledgeState g' = knowledgeState g) \<and>
   knowledgeState (updatePlayer c dtSeconds g) = knowledgeState g \<and>
   knowledgeState (updatePatient c r dtMs g) = knowledgeState g \<and>
   (updateGroundMistakes c r dtMs g = Inr g' \<longrightarrow> knowledgeState g' = knowledgeState g) \<and>
   (reachable c g \<longrightarrow>
      percent_ok (percent (knowledgeState g)) \<and>
      math_round (percent (knowledgeState g)) = percent (knowledgeState g)) \<and>
   (reachable c g \<and> gameState g = PLAYING \<and>
    g3 = updateKnowledgeAndItems c r dtMs (updatePlayer c dtSeconds (g\<lparr>lastTimestamp := Some timestamp\<rparr>)) \<and>
    updateFallingItems c dtSeconds g3 = Inr g4 \<longrightarrow>
      math_round (percent (knowledgeState g3)) = percent (knowledgeState g3) \<and>
      math_round (percent (knowledgeState g4)) = percent (knowledgeState g4))"
proof -
  have 1: "percent (knowledgeState (initial c r0)) = 50"
    "percent (knowledgeState (startGame c r0 g)) = 50"
    by (simp_all add: initial_def startGame_def)
  have 2: "percent_ok (percent (knowledgeState g)) \<and>
      math_round (percent (knowledgeState g)) = percent (knowledgeState g)" if "reachable c g"
    using reachable_inv [OF that] by (simp add: game_inv_def percent_ok_round)
  have 3: "math_round (percent (knowledgeState g3)) = percent (knowledgeState g3) \<and>
      math_round (percent (knowledgeState g4)) = percent (knowledgeState g4)"
    if r: "reachable c g" and p: "gameState g = PLAYING"
      and g3: "g3 = updateKnowledgeAndItems c r dtMs
        (updatePlayer c dtSeconds (g\<lparr>lastTimestamp := Some timestamp\<rparr>))"
      and g4: "updateFallingItems c dtSeconds g3 = Inr g4"
  proof -
    have "game_inv (g\<lparr>lastTimestamp := Some timestamp\<rparr>)"
      using reachable_inv [OF r] by (simp add: game_inv_def)
    then have i3: "game_inv g3" "gameState g3 = PLAYING"
      using p by (simp_all add: g3 updateKnowledgeAndItems_inv updatePlayer_inv)
    then have "game_inv g4"
      using updateFallingItems_inv [OF i3, of c dtSeconds] g4 by auto
    then show ?thesis
      using i3(1) by (simp add: game_inv_def percent_ok_round)
  qed
  have 4: "percent (knowledgeState (updateKnowledgeAndItems c r dtMs g)) = percent (knowledgeState g) \<or>
    percent (knowledgeState (updateKnowledgeAndItems c r dtMs g)) =
      clamp (percent (knowledgeState g) - KNOWLEDGE_EROSION_STEP) KNOWLEDGE_MIN KNOWLEDGE_MAX"
    by (simp add: updateKnowledgeAndItems_percent)
  have 5: "percent (knowledgeState g') = percent (knowledgeState g) \<or>
      percent (knowledgeState g') =
        clamp (percent (knowledgeState g) + KNOWLEDGE_PICKUP_AMOUNT) KNOWLEDGE_MIN KNOWLEDGE_MAX \<or>
      percent (knowledgeState g') = 50"
    if "updateFallingItems_body c dtSeconds pb i g = Continue g'"
    using updateFallingItems_body_percent [where c = c and dtSeconds = dtSeconds and pb = pb and i = i
        and h = g] that by simp
  have 6: "knowledgeState g' = knowledgeState g"
    if "updateFallingItems_body c dtSeconds pb i g = Return (Inr g')"
    using updateFallingItems_body_percent [where c = c and dtSeconds = dtSeconds and pb = pb and i = i
        and h = g] that by simp
  have 7: "knowledgeState (updatePlayer c dtSeconds g) = knowledgeState g"
    using updatePlayer_frame [of c dtSeconds g] by auto
  have 8: "knowledgeState (updatePatient c r dtMs g) = knowledgeState g"
    by (simp add: updatePatient_def Let_def patientExpiry_def split: option.splits)
  have 9: "knowledgeState g' = knowledgeState g" if "updateGroundMistakes c r dtMs g = Inr g'"
    using that by (rule updateGroundMistakes_knowledgeState)
  show ?thesis
    using 1 2 3 4 5 6 7 8 9 by blast
qed

theorem percent_multiple_of_five_witness:
  "percent (knowledgeState (initial stage zero_draws)) = 50 \<and>
   reachable stage session_6 \<and> percent (knowledgeState session_6) = 40 \<and>
   percent_ok (percent (knowledgeState session_6)) \<and>
   math_round (percent (knowledgeState session_6)) = percent (knowledgeState session_6) \<and>
   reachable stage session_2 \<and> gameState session_2 = PLAYING \<and>
   updateFallingItems stage (12 / 5)
     (updateKnowledgeAndItems stage session_draws 2400
       (updatePlayer stage (12 / 5) (session_2\<lparr>lastTimestamp := Some 4800\<rparr>))) =
     Inr (session_2\<lparr>lastTimestamp := Some 4800,
            knowledgeState := \<lparr>percent = 45, timeSinceErosionMs = 0\<rparr>\<rparr>) \<and>
   math_round (percent (knowledgeState
     (updateKnowledgeAndItems stage session_draws 2400
       (updatePlayer stage (12 / 5) (session_2\<lparr>lastTimestamp := Some 4800\<rparr>))))) =
     percent (knowledgeState
     (updateKnowledgeAndItems stage session_draws 2400
       (updatePlayer stage (12 / 5) (session_2\<lparr>lastTimestamp := Some 4800\<rparr>)))) \<and>
   math_round 45 = 45"
proof -
  have pass: "updateFallingItems stage (12 / 5)
     (updateKnowledgeAndItems stage session_draws 2400
       (updatePlayer stage (12 / 5) (session_2\<lparr>lastTimestamp := Some 4800\<rparr>))) =
     Inr (session_2\<lparr>lastTimestamp := Some 4800,
            knowledgeState := \<lparr>percent = 45, timeSinceErosionMs = 0\<rparr>\<rparr>)"
    by code_simp
  show ?thesis
    using percent_multiple_of_five [where c = stage and ?r0.0 = zero_draws and g = session_6]
      percent_multiple_of_five [where c = stage and ?r0.0 = zero_draws and g = session_2
        and r = session_draws and dtMs = 2400 and dtSeconds = "12 / 5" and timestamp = 4800
        and ?g3.0 = "updateKnowledgeAndItems stage session_draws 2400
          (updatePlayer stage (12 / 5) (session_2\<lparr>lastTimestamp := Some 4800\<rparr>))"
        and ?g4.0 = "session_2\<lparr>lastTimestamp := Some 4800,
            knowledgeState := \<lparr>percent = 45, timeSinceErosionMs = 0\<rparr>\<rparr>"]
      reachable_session reachable_sessions session_facts pass
    by simp
qed

subsection \<open>The player\<close>

text \<open>
  C9.  After \<^verbatim>\<open>updatePlayer\<close>, from any position and velocity, with any keys held and
  any elapsed time, the bottom edge of the player is not below the floor line and \<open>x\<close> is
  at most \<^verbatim>\<open>canvas.width - PLAYER_WIDTH\<close>; \<open>x\<close> is at least 0 on every canvas that is
  at least as wide as the player.
\<close>

theorem player_stays_on_stage:
  "y (player (updatePlayer c dtSeconds g)) + PLAYER_HEIGHT \<le> FLOOR_Y c \<and>
   x (player (updatePlayer c dtSeconds g)) \<le> real (canvas_width c) - PLAYER_WIDTH \<and>
   (PLAYER_WIDTH \<le> real (canvas_width c) \<longrightarrow> 0 \<le> x (player (updatePlayer c dtSeconds g)))"
proof -
  have 1: "y (player (updatePlayer c dtSeconds g)) + PLAYER_HEIGHT \<le> FLOOR_Y c"
    by (simp add: updatePlayer_def Let_def)
  have 2: "x (player (updatePlayer c dtSeconds g)) =
      clamp (x (player g) +
        ((if right (inputState g) then PLAYER_SPEED else 0) - (if left (inputState g) then PLAYER_SPEED else 0))
          * dtSeconds) 0 (real (canvas_width c) - PLAYER_WIDTH)"
    by (simp add: updatePlayer_def Let_def)
  show ?thesis
    using 1 unfolding 2 by (simp add: clamp_def)
qed

theorem player_stays_on_stage_witness:
  "PLAYER_WIDTH \<le> real (canvas_width stage) \<and>
   0 \<le> x (player (updatePlayer stage 100
     (started\<lparr>inputState := \<lparr>left = True, right = False, jump = True\<rparr>\<rparr>))) \<and>
   y (player (updatePlayer stage 100
     (started\<lparr>inputState := \<lparr>left = True, right = False, jump = True\<rparr>\<rparr>))) + PLAYER_HEIGHT
     \<le> FLOOR_Y stage"
  using player_stays_on_stage [of stage 100
      "started\<lparr>inputState := \<lparr>left = True, right = False, jump = True\<rparr>\<rparr>"]
  by (simp add: stage_def)

subsection \<open>Mistakes and the end of the game\<close>

text \<open>
  C4.  In every reachable state the mistake counter is at most 5; it is 5 exactly when the
  game is over; and \<^verbatim>\<open>endGame\<close> has been called once since the last start when the
  game is over, and not at all otherwise.  When the game is over a frame changes nothing.
  A \<^verbatim>\<open>return\<close> in the body of either loop ends the loop at once, and a game that ends
  in the pass over the falling items ends the frame there, before the patient and the
  ground mistakes are updated.  The last two conjuncts are the two sources: a falling
  mistake or a ground mistake that brings the counter to 5 calls \<^verbatim>\<open>endGame\<close> and
  returns.
\<close>

theorem mistakes_end_the_game_once:
  "(reachable c g \<longrightarrow>
      count (mistakesState g) \<le> MAX_MISTAKES \<and>
      (count (mistakesState g) = MAX_MISTAKES \<longleftrightarrow> gameState g = GAME_OVER) \<and>
      endGameCalls g = (if gameState g = GAME_OVER then 1 else 0)) \<and>
   (gameState g = GAME_OVER \<longrightarrow> gameLoop c timestamp r g = Inr g) \<and>
   (updateFallingItems_body c dtSeconds pb i h = Return res \<longrightarrow>
      updateFallingItems_loop c dtSeconds pb (Suc i) h = res) \<and>
   (updateGroundMistakes_body dtMs pb i h = Return res \<longrightarrow>
      updateGroundMistakes_loop dtMs pb (Suc i) h = res) \<and>
   (gameState g = PLAYING \<and>
    updateFallingItems c dtSeconds
      (updateKnowledgeAndItems c r dtMs
        (updatePlayer c dtSeconds (g\<lparr>lastTimestamp := Some timestamp\<rparr>))) = Inr g4 \<and>
    dtMs = timestamp - (case lastTimestamp g of None \<Rightarrow> timestamp | Some t \<Rightarrow> t) \<and>
    dtSeconds = dtMs / 1000 \<and> gameState g4 = GAME_OVER \<longrightarrow>
      gameLoop c timestamp r g = Inr g4) \<and>
   (game_inv h \<and> gameState h = PLAYING \<and> i < length (fallingItems h) \<and>
    type (fallingItems h ! i) = MISTAKE \<and> intersects pb (moved dtSeconds (fallingItems h ! i)) \<and>
    count (mistakesState h) + 1 \<ge> MAX_MISTAKES \<longrightarrow>
      (\<exists>h'. updateFallingItems_body c dtSeconds pb i h = Return (Inr h') \<and>
            gameState h' = GAME_OVER \<and> count (mistakesState h') = MAX_MISTAKES \<and>
            endGameCalls h' = 1)) \<and>
   (game_inv h \<and> gameState h = PLAYING \<and> i < length (groundMistakes h) \<and>
    intersects pb ((groundMistakes h ! i)\<lparr>lifetimeMs := lifetimeMs (groundMistakes h ! i) + dtMs\<rparr>) \<and>
    count (mistakesState h) + 1 \<ge> MAX_MISTAKES \<longrightarrow>
      (\<exists>h'. updateGroundMistakes_body dtMs pb i h = Return (Inr h') \<and>
            gameState h' = GAME_OVER \<and> count (mistakesState h') = MAX_MISTAKES \<and>
            endGameCalls h' = 1))"
proof -
  have 1: "count (mistakesState g) \<le> MAX_MISTAKES \<and>
      (count (mistakesState g) = MAX_MISTAKES \<longleftrightarrow> gameState g = GAME_OVER) \<and>
      endGameCalls g = (if gameState g = GAME_OVER then 1 else 0)" if "reachable c g"
    using reachable_inv [OF that] by (auto simp: game_inv_def)
  have 2: "gameLoop c timestamp r g = Inr g" if "gameState g = GAME_OVER"
    using that by (simp add: gameLoop_def)
  have 3: "updateFallingItems_loop c dtSeconds pb (Suc i) h = res"
    if "updateFallingItems_body c dtSeconds pb i h = Return res"
    using that by simp
  have 4: "updateGroundMistakes_loop dtMs pb (Suc i) h = res"
    if "updateGroundMistakes_body dtMs pb i h = Return res"
    using that by simp
  have 5: "gameLoop c timestamp r g = Inr g4"
    if "gameState g = PLAYING"
      "updateFallingItems c dtSeconds
        (updateKnowledgeAndItems c r dtMs
          (updatePlayer c dtSeconds (g\<lparr>lastTimestamp := Some timestamp\<rparr>))) = Inr g4"
      "dtMs = timestamp - (case lastTimestamp g of None \<Rightarrow> timestamp | Some t \<Rightarrow> t)"
      "dtSeconds = dtMs / 1000" "gameState g4 = GAME_OVER"
    using that by (simp add: gameLoop_def Let_def)
  have 6: "\<exists>h'. updateFallingItems_body c dtSeconds pb i h = Return (Inr h') \<and>
            gameState h' = GAME_OVER \<and> count (mistakesState h') = MAX_MISTAKES \<and>
            endGameCalls h' = 1"
    if "game_inv h" "gameState h = PLAYING" "i < length (fallingItems h)"
      "type (fallingItems h ! i) = MISTAKE"
      "intersects pb (moved dtSeconds (fallingItems h ! i))"
      "count (mistakesState h) + 1 \<ge> MAX_MISTAKES"
    using that
    by (simp add: updateFallingItems_body_def Let_def moved_def game_inv_def endGame_ok clamp_def)
  have 7: "\<exists>h'. updateGroundMistakes_body dtMs pb i h = Return (Inr h') \<and>
            gameState h' = GAME_OVER \<and> count (mistakesState h') = MAX_MISTAKES \<and>
            endGameCalls h' = 1"
    if "game_inv h" "gameState h = PLAYING"
      "intersects pb ((groundMistakes h ! i)\<lparr>lifetimeMs := lifetimeMs (groundMistakes h ! i) + dtMs\<rparr>)"
      "count (mistakesState h) + 1 \<ge> MAX_MISTAKES"
    using that
    by (simp add: updateGroundMistakes_body_def Let_def game_inv_def endGame_ok clamp_def)
  show ?thesis
    using 1 2 3 4 5 6 7 by blast
qed

theorem mistakes_end_the_game_once_witness:
  "run stage [StartClick zero_draws, Frame 0 session_draws, Frame 2400 session_draws,
     Frame 4800 session_draws, Frame 7200 session_draws, Frame 9600 session_draws,
     Frame 12000 session_draws] (initial stage zero_draws) = Inr session_6 \<and>
   reachable stage session_5 \<and> gameState session_5 = PLAYING \<and>
   count (mistakesState session_5) = 4 \<and> endGameCalls session_5 = 0 \<and>
   reachable stage session_6 \<and> gameState session_6 = GAME_OVER \<and>
   count (mistakesState session_6) = MAX_MISTAKES \<and> endGameCalls session_6 = 1 \<and>
   gameLoop stage 14400 session_draws session_6 = Inr session_6 \<and>
   game_inv hit_by_falling \<and> gameState hit_by_falling = PLAYING \<and>
   0 < length (fallingItems hit_by_falling) \<and>
   type (fallingItems hit_by_falling ! 0) = MISTAKE \<and>
   intersects (getPlayerHitBox hit_by_falling) (moved 0 (fallingItems hit_by_falling ! 0)) \<and>
   count (mistakesState hit_by_falling) + 1 \<ge> MAX_MISTAKES \<and>
   updateFallingItems_body stage 0 (getPlayerHitBox hit_by_falling) 0 hit_by_falling =
     Return (Inr ended_by_falling) \<and>
   updateFallingItems_loop stage 0 (getPlayerHitBox hit_by_falling) (Suc 0) hit_by_falling =
     Inr ended_by_falling \<and>
   gameLoop stage 0 zero_draws hit_by_falling = Inr (ended_by_falling\<lparr>lastTimestamp := Some 0\<rparr>) \<and>
   game_inv hit_by_ground \<and> gameState hit_by_ground = PLAYING \<and>
   0 < length (groundMistakes hit_by_ground) \<and>
   intersects (getPlayerHitBox hit_by_ground)
     ((groundMistakes hit_by_ground ! 0)\<lparr>lifetimeMs := lifetimeMs (groundMistakes hit_by_ground ! 0) + 16\<rparr>) \<and>
   count (mistakesState hit_by_ground) + 1 \<ge> MAX_MISTAKES \<and>
   updateGroundMistakes_body 16 (getPlayerHitBox hit_by_ground) 0 hit_by_ground =
     Return (Inr ended_by_ground) \<and>
   updateGroundMistakes_loop 16 (getPlayerHitBox hit_by_ground) (Suc 0) hit_by_ground =
     Inr ended_by_ground \<and>
   gameState ended_by_ground = GAME_OVER \<and> count (mistakesState ended_by_ground) = MAX_MISTAKES \<and>
   endGameCalls ended_by_ground = 1"
  using mistakes_end_the_game_once [where c = stage and g = session_5]
    mistakes_end_the_game_once [where c = stage and g = session_6 and timestamp = 14400
      and r = session_draws]
    mistakes_end_the_game_once [where c = stage and g = hit_by_falling and timestamp = 0
      and r = zero_draws and dtMs = 0 and dtSeconds = 0
      and ?g4.0 = "ended_by_falling\<lparr>lastTimestamp := Some 0\<rparr>"
      and h = hit_by_falling and i = 0 and pb = "getPlayerHitBox hit_by_falling"
      and res = "Inr ended_by_falling"]
    mistakes_end_the_game_once [where c = stage and g = session_6 and dtMs = 16
      and h = hit_by_ground and i = 0 and pb = "getPlayerHitBox hit_by_ground"
      and res = "Inr ended_by_ground"]
    reachable_sessions reachable_session session_facts hit_facts
    hit_by_falling_body hit_by_ground_body hit_by_falling_pass session_run
  by (simp add: ended_by_ground_def)

subsection \<open>Assessments\<close>

text \<open>
  C5.  In every reachable state at most one assessment item is falling, and the pending
  flag is set exactly when there is one.  \<^verbatim>\<open>updateKnowledgeAndItems\<close> adds an assessment
  item exactly when none is pending and the rounded meter is at least 100, and sets the
  flag.  The iteration that catches the assessment item sets the mistake counter to 0 and
  the meter to 50, adds 1 to the assessments passed, clears the flag and removes the item.
  The iteration in which it has fallen off the stage uncaught clears the flag and removes
  the item, so that the spawn condition can hold again.
\<close>

theorem one_assessment_pending:
  "(reachable c g \<longrightarrow>
      assessments_in (fallingItems g) \<le> 1 \<and>
      (pending (assessmentState g) \<longleftrightarrow> assessments_in (fallingItems g) = 1)) \<and>
   (g' = updateKnowledgeAndItems c r dtMs g \<longrightarrow>
      assessments_in (fallingItems g') = assessments_in (fallingItems g) +
        (if \<not> pending (assessmentState g) \<and>
            math_round (percent (knowledgeState g')) \<ge> KNOWLEDGE_MAX then 1 else 0) \<and>
      (pending (assessmentState g') \<longleftrightarrow>
         pending (assessmentState g) \<or> math_round (percent (knowledgeState g')) \<ge> KNOWLEDGE_MAX)) \<and>
   (i < length (fallingItems h) \<and> type (fallingItems h ! i) = ASSESSMENT \<and>
    intersects pb (moved dtSeconds (fallingItems h ! i)) \<longrightarrow>
      updateFallingItems_body c dtSeconds pb i h =
        Continue (h\<lparr>mistakesState := (mistakesState h)\<lparr>count := 0\<rparr>,
                    knowledgeState := (knowledgeState h)\<lparr>percent := 50\<rparr>,
                    assessmentState := (assessmentState h)\<lparr>pending := False\<rparr>,
                    scoreState := (scoreState h)\<lparr>assessmentsPassed :=
                      assessmentsPassed (scoreState h) + 1\<rparr>,
                    fallingItems := splice_at i (fallingItems h)\<rparr>)) \<and>
   (i < length (fallingItems h) \<and> type (fallingItems h ! i) = ASSESSMENT \<and>
    \<not> intersects pb (moved dtSeconds (fallingItems h ! i)) \<and>
    y (moved dtSeconds (fallingItems h ! i)) > real (canvas_height c) + 40 \<longrightarrow>
      updateFallingItems_body c dtSeconds pb i h =
        Continue (h\<lparr>assessmentState := (assessmentState h)\<lparr>pending := False\<rparr>,
                    fallingItems := splice_at i (fallingItems h)\<rparr>))"
proof -
  have 1: "assessments_in (fallingItems g) \<le> 1 \<and>
      (pending (assessmentState g) \<longleftrightarrow> assessments_in (fallingItems g) = 1)" if "reachable c g"
    using reachable_inv [OF that] by (simp add: game_inv_def)
  have 2: "assessments_in (fallingItems g') = assessments_in (fallingItems g) +
        (if \<not> pending (assessmentState g) \<and>
            math_round (percent (knowledgeState g')) \<ge> KNOWLEDGE_MAX then 1 else 0) \<and>
      (pending (assessmentState g') \<longleftrightarrow>
         pending (assessmentState g) \<or> math_round (percent (knowledgeState g')) \<ge> KNOWLEDGE_MAX)"
    if "g' = updateKnowledgeAndItems c r dtMs g"
    unfolding that
    by (simp add: updateKnowledgeAndItems_def Let_def spawnAssessmentItem_def
        spawnRandomItem_def assessments_in_def)
  have 3: "updateFallingItems_body c dtSeconds pb i h =
        Continue (h\<lparr>mistakesState := (mistakesState h)\<lparr>count := 0\<rparr>,
                    knowledgeState := (knowledgeState h)\<lparr>percent := 50\<rparr>,
                    assessmentState := (assessmentState h)\<lparr>pending := False\<rparr>,
                    scoreState := (scoreState h)\<lparr>assessmentsPassed :=
                      assessmentsPassed (scoreState h) + 1\<rparr>,
                    fallingItems := splice_at i (fallingItems h)\<rparr>)"
    if "type (fallingItems h ! i) = ASSESSMENT"
      "intersects pb (moved dtSeconds (fallingItems h ! i))"
    using that
    by (simp add: updateFallingItems_body_def Let_def moved_def splice_update)
  have 4: "updateFallingItems_body c dtSeconds pb i h =
        Continue (h\<lparr>assessmentState := (assessmentState h)\<lparr>pending := False\<rparr>,
                    fallingItems := splice_at i (fallingItems h)\<rparr>)"
    if "type (fallingItems h ! i) = ASSESSMENT"
      "\<not> intersects pb (moved dtSeconds (fallingItems h ! i))"
      "y (moved dtSeconds (fallingItems h ! i)) > real (canvas_height c) + 40"
    using that
    by (simp add: updateFallingItems_body_def Let_def moved_def splice_update)
  show ?thesis
    using 1 2 3 4 by blast
qed

theorem one_assessment_pending_witness:
  "reachable stage session_6 \<and>
   assessments_in (fallingItems session_6) \<le> 1 \<and> \<not> pending (assessmentState session_6) \<and>
   0 < length (fallingItems catching) \<and> type (fallingItems catching ! 0) = ASSESSMENT \<and>
   intersects (getPlayerHitBox catching) (moved (2 / 125) (fallingItems catching ! 0)) \<and>
   updateFallingItems_body stage (2 / 125) (getPlayerHitBox catching) 0 catching =
     Continue (catching\<lparr>mistakesState := (mistakesState catching)\<lparr>count := 0\<rparr>,
       knowledgeState := (knowledgeState catching)\<lparr>percent := 50\<rparr>,
       assessmentState := (assessmentState catching)\<lparr>pending := False\<rparr>,
       scoreState := (scoreState catching)\<lparr>assessmentsPassed :=
         assessmentsPassed (scoreState catching) + 1\<rparr>,
       fallingItems := splice_at 0 (fallingItems catching)\<rparr>) \<and>
   pending (assessmentState catching) \<and>
   assessments_in (fallingItems (updateKnowledgeAndItems stage zero_draws 16 catching)) = 1 \<and>
   0 < length (fallingItems losing) \<and> type (fallingItems losing ! 0) = ASSESSMENT \<and>
   \<not> intersects (getPlayerHitBox losing) (moved (2 / 125) (fallingItems losing ! 0)) \<and>
   y (moved (2 / 125) (fallingItems losing ! 0)) > real (canvas_height stage) + 40 \<and>
   updateFallingItems_body stage (2 / 125) (getPlayerHitBox losing) 0 losing =
     Continue (losing\<lparr>assessmentState := (assessmentState losing)\<lparr>pending := False\<rparr>,
       fallingItems := splice_at 0 (fallingItems losing)\<rparr>) \<and>
   assessments_in (fallingItems
     (updateKnowledgeAndItems stage zero_draws 16
       (losing\<lparr>assessmentState := (assessmentState losing)\<lparr>pending := False\<rparr>,
          fallingItems := splice_at 0 (fallingItems losing)\<rparr>))) = 1 \<and>
   pending (assessmentState
     (updateKnowledgeAndItems stage zero_draws 16
       (losing\<lparr>assessmentState := (assessmentState losing)\<lparr>pending := False\<rparr>,
          fallingItems := splice_at 0 (fallingItems losing)\<rparr>)))"
  using one_assessment_pending [where c = stage and g = session_6]
    one_assessment_pending [where c = stage and g = catching and r = zero_draws and dtMs = 16
      and g' = "updateKnowledgeAndItems stage zero_draws 16 catching"
      and h = catching and i = 0 and pb = "getPlayerHitBox catching" and dtSeconds = "2 / 125"]
    one_assessment_pending [where c = stage and r = zero_draws and dtMs = 16
      and g = "losing\<lparr>assessmentState := (assessmentState losing)\<lparr>pending := False\<rparr>,
          fallingItems := splice_at 0 (fallingItems losing)\<rparr>"
      and g' = "updateKnowledgeAndItems stage zero_draws 16
       (losing\<lparr>assessmentState := (assessmentState losing)\<lparr>pending := False\<rparr>,
          fallingItems := splice_at 0 (fallingItems losing)\<rparr>)"
      and h = losing and i = 0 and pb = "getPlayerHitBox losing" and dtSeconds = "2 / 125"]
    reachable_session session_facts catching_facts losing_facts math_round_100
  by (simp add: updateKnowledgeAndItems_percent assessments_in_def)

subsection \<open>The patient\<close>





end
